theory Spec2Isabelle
  imports Complex_Main
begin

section \<open>pymanoid: rigid bodies and link tasks\<close>

text \<open>
  A shallow embedding of \<^verbatim>\<open>pymanoid/body.py\<close> and \<^verbatim>\<open>pymanoid/tasks/link.py\<close>.

  Conventions of the embedding:
  \<^item> numpy \<^verbatim>\<open>float64\<close> values are idealised as real numbers: rounding, infinities and
    NaN are outside the model;
  \<^item> arrays whose shape is fixed by the robotics engine are tuples: a transform is the
    4x4 matrix returned by \<^verbatim>\<open>GetTransform\<close> (four rows of four), a pose the 7-array
    returned by \<^verbatim>\<open>GetTransformPose\<close> (quaternion first, translation last);
  \<^item> arrays supplied by the caller of a task are lists, so that a vector of the wrong
    length is a value of the model, and numpy's shape errors are results;
  \<^item> the wrapped \<^verbatim>\<open>KinBody\<close> is a store of one transform: \<^verbatim>\<open>GetTransform\<close> returns the
    matrix last given to \<^verbatim>\<open>SetTransform\<close>;
  \<^item> names that would be single letters (\<^verbatim>\<open>T\<close>, \<^verbatim>\<open>R\<close>, \<^verbatim>\<open>p\<close>, \<^verbatim>\<open>x\<close>, ...) carry the suffix
    \<^verbatim>\<open>_of\<close>; every other name is the source's.
\<close>

subsection \<open>Arrays of fixed shape\<close>

type_synonym vec3 = "real \<times> real \<times> real"
type_synonym vec4 = "real \<times> real \<times> real \<times> real"
type_synonym mat3 = "vec3 \<times> vec3 \<times> vec3"
type_synonym mat4 = "vec4 \<times> vec4 \<times> vec4 \<times> vec4"
type_synonym pose7 = "real \<times> real \<times> real \<times> real \<times> real \<times> real \<times> real"

text \<open>numpy's element-wise \<^verbatim>\<open>+\<close> and \<^verbatim>\<open>* scalar\<close> on 3-vectors and 3x3 matrices, and \<^verbatim>\<open>dot\<close>
  of two 3x3 matrices.\<close>

fun vadd :: "vec3 \<Rightarrow> vec3 \<Rightarrow> vec3" where
  "vadd (a0, a1, a2) (b0, b1, b2) = (a0 + b0, a1 + b1, a2 + b2)"

fun vscale :: "vec3 \<Rightarrow> real \<Rightarrow> vec3" where
  "vscale (a0, a1, a2) s = (a0 * s, a1 * s, a2 * s)"

fun madd :: "mat3 \<Rightarrow> mat3 \<Rightarrow> mat3" where
  "madd (r0, r1, r2) (s0, s1, s2) = (vadd r0 s0, vadd r1 s1, vadd r2 s2)"

fun mscale :: "mat3 \<Rightarrow> real \<Rightarrow> mat3" where
  "mscale (r0, r1, r2) s = (vscale r0 s, vscale r1 s, vscale r2 s)"

fun mdot :: "mat3 \<Rightarrow> mat3 \<Rightarrow> mat3" where
  "mdot ((a00, a01, a02), (a10, a11, a12), (a20, a21, a22))
        ((b00, b01, b02), (b10, b11, b12), (b20, b21, b22)) =
     ((a00 * b00 + a01 * b10 + a02 * b20, a00 * b01 + a01 * b11 + a02 * b21,
       a00 * b02 + a01 * b12 + a02 * b22),
      (a10 * b00 + a11 * b10 + a12 * b20, a10 * b01 + a11 * b11 + a12 * b21,
       a10 * b02 + a11 * b12 + a12 * b22),
      (a20 * b00 + a21 * b10 + a22 * b20, a20 * b01 + a21 * b11 + a22 * b21,
       a20 * b02 + a21 * b12 + a22 * b22))"

text \<open>Slices of a transform: \<^verbatim>\<open>T[0:3, 0:3]\<close>, \<^verbatim>\<open>T[0:3, j]\<close>, and the assignments
  \<^verbatim>\<open>T[:3, :3] = R\<close>, \<^verbatim>\<open>T[:3, 3] = pos\<close>, \<^verbatim>\<open>T[i, 3] = v\<close>.\<close>

fun block33 :: "mat4 \<Rightarrow> mat3" where
  "block33 ((r00, r01, r02, p0), (r10, r11, r12, p1), (r20, r21, r22, p2), bottom) =
     ((r00, r01, r02), (r10, r11, r12), (r20, r21, r22))"

fun col0 :: "mat4 \<Rightarrow> vec3" where
  "col0 ((r00, r01, r02, p0), (r10, r11, r12, p1), (r20, r21, r22, p2), bottom) =
     (r00, r10, r20)"

fun col1 :: "mat4 \<Rightarrow> vec3" where
  "col1 ((r00, r01, r02, p0), (r10, r11, r12, p1), (r20, r21, r22, p2), bottom) =
     (r01, r11, r21)"

fun col2 :: "mat4 \<Rightarrow> vec3" where
  "col2 ((r00, r01, r02, p0), (r10, r11, r12, p1), (r20, r21, r22, p2), bottom) =
     (r02, r12, r22)"

fun col3 :: "mat4 \<Rightarrow> vec3" where
  "col3 ((r00, r01, r02, p0), (r10, r11, r12, p1), (r20, r21, r22, p2), bottom) =
     (p0, p1, p2)"

fun bottom_row :: "mat4 \<Rightarrow> vec4" where
  "bottom_row (row0, row1, row2, bottom) = bottom"

fun set_block33 :: "mat4 \<Rightarrow> mat3 \<Rightarrow> mat4" where
  "set_block33 ((r00, r01, r02, p0), (r10, r11, r12, p1), (r20, r21, r22, p2), bottom)
               ((s00, s01, s02), (s10, s11, s12), (s20, s21, s22)) =
     ((s00, s01, s02, p0), (s10, s11, s12, p1), (s20, s21, s22, p2), bottom)"

fun set_col3 :: "mat4 \<Rightarrow> vec3 \<Rightarrow> mat4" where
  "set_col3 ((r00, r01, r02, p0), (r10, r11, r12, p1), (r20, r21, r22, p2), bottom)
            (q0, q1, q2) =
     ((r00, r01, r02, q0), (r10, r11, r12, q1), (r20, r21, r22, q2), bottom)"

fun set_03 :: "mat4 \<Rightarrow> real \<Rightarrow> mat4" where
  "set_03 ((r00, r01, r02, p0), row1, row2, bottom) v = ((r00, r01, r02, v), row1, row2, bottom)"

fun set_13 :: "mat4 \<Rightarrow> real \<Rightarrow> mat4" where
  "set_13 (row0, (r10, r11, r12, p1), row2, bottom) v = (row0, (r10, r11, r12, v), row2, bottom)"

fun set_23 :: "mat4 \<Rightarrow> real \<Rightarrow> mat4" where
  "set_23 (row0, row1, (r20, r21, r22, p2), bottom) v = (row0, row1, (r20, r21, r22, v), bottom)"

text \<open>Slices of a pose: \<^verbatim>\<open>pose[0]\<close>, \<^verbatim>\<open>pose[0:4]\<close>, \<^verbatim>\<open>pose[4:7]\<close>, and a quaternion times \<open>-1\<close>.\<close>

definition pose_scalar :: "pose7 \<Rightarrow> real" where
  "pose_scalar P = (case P of (w, qx, qy, qz, p0, p1, p2) \<Rightarrow> w)"

definition pose_quat :: "pose7 \<Rightarrow> vec4" where
  "pose_quat P = (case P of (w, qx, qy, qz, p0, p1, p2) \<Rightarrow> (w, qx, qy, qz))"

definition pose_translation :: "pose7 \<Rightarrow> vec3" where
  "pose_translation P = (case P of (w, qx, qy, qz, p0, p1, p2) \<Rightarrow> (p0, p1, p2))"

definition neg4 :: "vec4 \<Rightarrow> vec4" where
  "neg4 q = (case q of (w, qx, qy, qz) \<Rightarrow> (w * (- 1), qx * (- 1), qy * (- 1), qz * (- 1)))"

subsection \<open>External collaborators\<close>

text \<open>
  \<^verbatim>\<open>openravepy\<close> and the module \<^verbatim>\<open>rotations\<close> are not part of the two source files. The
  conversions between a rotation matrix, a quaternion and roll-pitch-yaw angles are
  parameters of the model: every definition that calls one takes the record below, and
  every theorem holds for all of its values unless it says otherwise.
\<close>

record extern =
  quatFromMatrix :: "mat3 \<Rightarrow> vec4"
  matrixFromQuat :: "vec4 \<Rightarrow> mat3"
  rotation_matrix_from_rpy :: "real \<Rightarrow> real \<Rightarrow> real \<Rightarrow> mat3"
  rpy_from_quat :: "vec4 \<Rightarrow> vec3"

text \<open>
  Modelled from the spec: \<^verbatim>\<open>KinBody.GetTransformPose\<close> of openravepy. The spec: a pose is a
  7-tuple, the orientation quaternion (4) then the translation (3), obtained by
  decomposing the transform into quaternion and translation. The quaternion of the
  rotation block is the parameter \<^const>\<open>quatFromMatrix\<close>.
\<close>

definition GetTransformPose :: "extern \<Rightarrow> mat4 \<Rightarrow> pose7" where
  "GetTransformPose E T =
     (case quatFromMatrix E (block33 T) of (w, qx, qy, qz) \<Rightarrow>
      case col3 T of (p0, p1, p2) \<Rightarrow> (w, qx, qy, qz, p0, p1, p2))"

text \<open>
  Modelled from the spec: \<^verbatim>\<open>openravepy.matrixFromPose\<close>, the inverse conversion. The
  rotation block is the parameter \<^const>\<open>matrixFromQuat\<close> of the quaternion, the last
  column is the translation, the last row is that of a homogeneous transform.
\<close>

definition matrixFromPose :: "extern \<Rightarrow> pose7 \<Rightarrow> mat4" where
  "matrixFromPose E pose =
     (case pose of (w, qx, qy, qz, p0, p1, p2) \<Rightarrow>
      case matrixFromQuat E (w, qx, qy, qz) of
        ((r00, r01, r02), (r10, r11, r12), (r20, r21, r22)) \<Rightarrow>
          ((r00, r01, r02, p0), (r10, r11, r12, p1), (r20, r21, r22, p2), (0, 0, 0, 1)))"

text \<open>
  Modelled from the spec: \<^verbatim>\<open>rotations.crossmat\<close>, which the spec calls \<open>skew(\<omega>)\<close>: the
  matrix of the cross product by \<open>\<omega>\<close>.
\<close>

fun crossmat :: "vec3 \<Rightarrow> mat3" where
  "crossmat (wx, wy, wz) = ((0, - wz, wy), (wz, 0, - wx), (- wy, wx, 0))"

subsection \<open>Proper rotations\<close>

text \<open>
  The transform of a body is said to be rigid when its rotation block is a proper
  rotation: an orthonormal matrix (its product with its transpose is the identity) of
  determinant \<open>1\<close>.
\<close>

fun transpose3 :: "mat3 \<Rightarrow> mat3" where
  "transpose3 ((r00, r01, r02), (r10, r11, r12), (r20, r21, r22)) =
     ((r00, r10, r20), (r01, r11, r21), (r02, r12, r22))"

fun det3 :: "mat3 \<Rightarrow> real" where
  "det3 ((r00, r01, r02), (r10, r11, r12), (r20, r21, r22)) =
     r00 * (r11 * r22 - r12 * r21) - r01 * (r10 * r22 - r12 * r20)
       + r02 * (r10 * r21 - r11 * r20)"

definition identity3 :: mat3 where
  "identity3 = ((1, 0, 0), (0, 1, 0), (0, 0, 1))"

definition proper_rotation :: "mat3 \<Rightarrow> bool" where
  "proper_rotation R = (mdot R (transpose3 R) = identity3 \<and> det3 R = 1)"

subsection \<open>Body\<close>

text \<open>The state of a \<^verbatim>\<open>Body\<close> is the transform of the \<^verbatim>\<open>KinBody\<close> it wraps.\<close>

record body =
  rave :: mat4

definition T_of :: "'a body_scheme \<Rightarrow> mat4" where
  "T_of self = rave self"

definition pose :: "extern \<Rightarrow> 'a body_scheme \<Rightarrow> pose7" where
  "pose E self =
     (case GetTransformPose E (rave self) of (w, qx, qy, qz, p0, p1, p2) \<Rightarrow>
        if w < 0 then (w * (- 1), qx * (- 1), qy * (- 1), qz * (- 1), p0, p1, p2)
        else (w, qx, qy, qz, p0, p1, p2))"

definition R_of :: "'a body_scheme \<Rightarrow> mat3" where
  "R_of self = block33 (T_of self)"

definition p_of :: "'a body_scheme \<Rightarrow> vec3" where
  "p_of self = col3 (T_of self)"

definition x_of :: "'a body_scheme \<Rightarrow> real" where
  "x_of self = (case p_of self of (p0, p1, p2) \<Rightarrow> p0)"

definition y_of :: "'a body_scheme \<Rightarrow> real" where
  "y_of self = (case p_of self of (p0, p1, p2) \<Rightarrow> p1)"

definition z_of :: "'a body_scheme \<Rightarrow> real" where
  "z_of self = (case p_of self of (p0, p1, p2) \<Rightarrow> p2)"

definition t_of :: "'a body_scheme \<Rightarrow> vec3" where
  "t_of self = col0 (T_of self)"

definition b_of :: "'a body_scheme \<Rightarrow> vec3" where
  "b_of self = col1 (T_of self)"

definition n_of :: "'a body_scheme \<Rightarrow> vec3" where
  "n_of self = col2 (T_of self)"

definition quat :: "extern \<Rightarrow> 'a body_scheme \<Rightarrow> vec4" where
  "quat E self = pose_quat (pose E self)"

definition rpy :: "extern \<Rightarrow> 'a body_scheme \<Rightarrow> vec3" where
  "rpy E self = rpy_from_quat E (quat E self)"

definition roll :: "extern \<Rightarrow> 'a body_scheme \<Rightarrow> real" where
  "roll E self = (case rpy E self of (r, p, y) \<Rightarrow> r)"

definition pitch :: "extern \<Rightarrow> 'a body_scheme \<Rightarrow> real" where
  "pitch E self = (case rpy E self of (r, p, y) \<Rightarrow> p)"

definition yaw :: "extern \<Rightarrow> 'a body_scheme \<Rightarrow> real" where
  "yaw E self = (case rpy E self of (r, p, y) \<Rightarrow> y)"

definition set_transform :: "mat4 \<Rightarrow> 'a body_scheme \<Rightarrow> 'a body_scheme" where
  "set_transform T self = self\<lparr>rave := T\<rparr>"

definition set_pos :: "vec3 \<Rightarrow> 'a body_scheme \<Rightarrow> 'a body_scheme" where
  "set_pos pos self = (let T = T_of self; T = set_col3 T pos in set_transform T self)"

definition set_rotation_matrix :: "mat3 \<Rightarrow> 'a body_scheme \<Rightarrow> 'a body_scheme" where
  "set_rotation_matrix R self =
     (let T = T_of self; T = set_block33 T R in set_transform T self)"

definition set_x :: "real \<Rightarrow> 'a body_scheme \<Rightarrow> 'a body_scheme" where
  "set_x x self = (let T = T_of self; T = set_03 T x in set_transform T self)"

definition set_y :: "real \<Rightarrow> 'a body_scheme \<Rightarrow> 'a body_scheme" where
  "set_y y self = (let T = T_of self; T = set_13 T y in set_transform T self)"

definition set_z :: "real \<Rightarrow> 'a body_scheme \<Rightarrow> 'a body_scheme" where
  "set_z z self = (let T = T_of self; T = set_23 T z in set_transform T self)"

definition set_rpy :: "extern \<Rightarrow> vec3 \<Rightarrow> 'a body_scheme \<Rightarrow> 'a body_scheme" where
  "set_rpy E rpy' self =
     (let T = T_of self;
          T = set_block33 T (case rpy' of (r, p, y) \<Rightarrow> rotation_matrix_from_rpy E r p y)
      in set_transform T self)"

definition set_roll :: "extern \<Rightarrow> real \<Rightarrow> 'a body_scheme \<Rightarrow> 'a body_scheme" where
  "set_roll E roll' self = set_rpy E (roll', pitch E self, yaw E self) self"

definition set_pitch :: "extern \<Rightarrow> real \<Rightarrow> 'a body_scheme \<Rightarrow> 'a body_scheme" where
  "set_pitch E pitch' self = set_rpy E (roll E self, pitch', yaw E self) self"

definition set_yaw :: "extern \<Rightarrow> real \<Rightarrow> 'a body_scheme \<Rightarrow> 'a body_scheme" where
  "set_yaw E yaw' self = set_rpy E (roll E self, pitch E self, yaw') self"

definition set_pose :: "extern \<Rightarrow> pose7 \<Rightarrow> 'a body_scheme \<Rightarrow> 'a body_scheme" where
  "set_pose E pose' self = (let T = matrixFromPose E pose' in set_transform T self)"

definition set_quat :: "extern \<Rightarrow> vec4 \<Rightarrow> 'a body_scheme \<Rightarrow> 'a body_scheme" where
  "set_quat E quat' self =
     (let pose' = pose E self;
          pose' = (case pose' of (w, qx, qy, qz, p0, p1, p2) \<Rightarrow>
                   case quat' of (w', qx', qy', qz') \<Rightarrow> (w', qx', qy', qz', p0, p1, p2))
      in set_pose E pose' self)"

text \<open>\<^verbatim>\<open>apply_twist\<close> is two statements: the second one reads \<^verbatim>\<open>self.R\<close> from the
  body as the first one left it.\<close>

definition apply_twist :: "vec3 \<Rightarrow> vec3 \<Rightarrow> real \<Rightarrow> 'a body_scheme \<Rightarrow> 'a body_scheme" where
  "apply_twist v omega dt self =
     (let self = set_pos (vadd (p_of self) (vscale v dt)) self
      in set_rotation_matrix
           (madd (R_of self) (mscale (mdot (crossmat omega) (R_of self)) dt)) self)"

text \<open>
  The angles that \<^const>\<open>rpy\<close> reads from a body whose rotation block is \<open>R\<close>: the
  engine's quaternion of \<open>R\<close>, with the sign that \<^const>\<open>pose\<close> gives it, passed to
  \<^const>\<open>rpy_from_quat\<close>. The external conversions agree at the angles \<open>r\<close>, \<open>p\<close>, \<open>y\<close>
  when these are read back from the rotation matrix made of them.
\<close>

definition rpy_of_matrix :: "extern \<Rightarrow> mat3 \<Rightarrow> vec3" where
  "rpy_of_matrix E R =
     rpy_from_quat E
       (case quatFromMatrix E R of (w, qx, qy, qz) \<Rightarrow>
          if w < 0 then (w * (- 1), qx * (- 1), qy * (- 1), qz * (- 1)) else (w, qx, qy, qz))"

definition rpy_round_trip :: "extern \<Rightarrow> real \<Rightarrow> real \<Rightarrow> real \<Rightarrow> bool" where
  "rpy_round_trip E r p y = (rpy_of_matrix E (rotation_matrix_from_rpy E r p y) = (r, p, y))"

subsection \<open>Point\<close>

text \<open>A \<^verbatim>\<open>Point\<close> is a body with the private velocity \<^verbatim>\<open>__pd\<close>, \<^verbatim>\<open>zeros(3)\<close> at creation.\<close>

record point = body +
  Point_pd :: vec3

definition pd_of :: "point \<Rightarrow> vec3" where
  "pd_of self = Point_pd self"

definition set_velocity :: "vec3 \<Rightarrow> point \<Rightarrow> point" where
  "set_velocity pd self = self\<lparr>Point_pd := pd\<rparr>"

definition integrate_acceleration :: "vec3 \<Rightarrow> real \<Rightarrow> point \<Rightarrow> point" where
  "integrate_acceleration pdd dt self =
     (let self = set_pos (vadd (vadd (p_of self) (vscale (pd_of self) dt))
                               (vscale (vscale pdd 0.5) (dt ^ 2))) self
      in set_velocity (vadd (pd_of self) (vscale pdd dt)) self)"

subsection \<open>Arrays of any length\<close>

text \<open>
  What \<^verbatim>\<open>link.py\<close> raises: numpy's \<^verbatim>\<open>ValueError\<close> when two shapes cannot be broadcast
  together, and the \<^verbatim>\<open>Exception\<close> of the constructors, \<^verbatim>\<open>"Target ... has no 'p'
  attribute"\<close>, which carries the name of the missing attribute here.
\<close>

datatype error = ValueError | NoAttribute string

definition bind_error :: "error + 'a \<Rightarrow> ('a \<Rightarrow> error + 'b) \<Rightarrow> error + 'b" where
  "bind_error r f = (case r of Inl e \<Rightarrow> Inl e | Inr v \<Rightarrow> f v)"

text \<open>An element-wise operation of numpy on two 1-d arrays: equal lengths pair up, an
  array of length 1 is stretched to the other's length, any other pair of lengths raises.\<close>

definition broadcast :: "(real \<Rightarrow> real \<Rightarrow> real) \<Rightarrow> real list \<Rightarrow> real list \<Rightarrow> error + real list" where
  "broadcast f xs ys =
     (if length xs = length ys then Inr (map2 f xs ys)
      else if length xs = 1 then Inr (map (f (hd xs)) ys)
      else if length ys = 1 then Inr (map (\<lambda>x. f x (hd ys)) xs)
      else Inl ValueError)"

definition np_sub :: "real list \<Rightarrow> real list \<Rightarrow> error + real list" where
  "np_sub xs ys = broadcast (-) xs ys"

definition np_mul :: "real list \<Rightarrow> real list \<Rightarrow> error + real list" where
  "np_mul xs ys = broadcast (*) xs ys"

text \<open>\<^verbatim>\<open>dot\<close> of two 1-d arrays: the lengths must agree.\<close>

definition np_dot :: "real list \<Rightarrow> real list \<Rightarrow> error + real" where
  "np_dot xs ys =
     (if length xs = length ys then Inr (sum_list (map2 (*) xs ys)) else Inl ValueError)"

definition arr3 :: "vec3 \<Rightarrow> real list" where
  "arr3 v = (case v of (a0, a1, a2) \<Rightarrow> [a0, a1, a2])"

definition arr7 :: "pose7 \<Rightarrow> real list" where
  "arr7 v = (case v of (a0, a1, a2, a3, a4, a5, a6) \<Rightarrow> [a0, a1, a2, a3, a4, a5, a6])"

subsection \<open>Targets, links and tasks\<close>

text \<open>
  A link is a body of the scene, named by its handle; the scene gives every handle its
  body, and a task reads it anew at each evaluation.

  A target is a Python value: a list of numbers, a numpy array, or any other object,
  which has or has not the attributes \<^verbatim>\<open>p\<close> and \<^verbatim>\<open>pose\<close>; an attribute is read from the
  scene. Lists and arrays have neither attribute.
\<close>

type_synonym scene = "nat \<Rightarrow> body"

record pyobject =
  attr_p :: "(scene \<Rightarrow> real list) option"
  attr_pose :: "(scene \<Rightarrow> real list) option"

datatype target = PyList "real list" | Ndarray "real list" | Object pyobject

text \<open>A \<^verbatim>\<open>Body\<close> used as a target: both attributes, read from the body of handle \<open>h\<close>.\<close>

definition Body_target :: "extern \<Rightarrow> nat \<Rightarrow> target" where
  "Body_target E h =
     Object \<lparr>attr_p = Some (\<lambda>s. arr3 (p_of (s h))),
             attr_pose = Some (\<lambda>s. arr7 (pose E (s h)))\<rparr>"

text \<open>The robot gives the Jacobians; they are external.\<close>

record robot =
  compute_link_pos_jacobian :: "nat \<Rightarrow> scene \<Rightarrow> real list list"
  compute_link_pose_jacobian :: "nat \<Rightarrow> scene \<Rightarrow> real list list"

text \<open>
  Modelled from the spec: \<^verbatim>\<open>generic.Task\<close>, whose constructor is not in the two source
  files. The spec: a task binds a Jacobian provider, a residual provider, a gain, a
  weight and an optional set of excluded degrees of freedom, and holds no other state.
\<close>

record task =
  link :: nat
  jacobian :: "scene \<Rightarrow> real list list"
  pos_residual :: "scene \<Rightarrow> error + real list"
  gain :: "real option"
  weight :: "real option"
  exclude_dofs :: "nat list option"

definition oppose_quat :: "real list" where
  "oppose_quat = [- 1, - 1, - 1, - 1, 1, 1, 1]"

text \<open>\<^verbatim>\<open>type(target) is list\<close> and \<^verbatim>\<open>array(target)\<close>.\<close>

fun array_of_list :: "target \<Rightarrow> target" where
  "array_of_list (PyList xs) = Ndarray xs"
| "array_of_list target = target"

text \<open>
  \<^verbatim>\<open>LinkPosTask.__init__\<close>. The three branches are \<^verbatim>\<open>hasattr(target, 'p')\<close>,
  \<^verbatim>\<open>type(target) is ndarray\<close> and the \<^verbatim>\<open>else\<close> that raises; each of the first two defines
  the closure \<^verbatim>\<open>pos_residual\<close>.
\<close>

definition LinkPosTask_residual ::
  "nat \<Rightarrow> target \<Rightarrow> error + (scene \<Rightarrow> error + real list)" where
  "LinkPosTask_residual lnk target =
     (case target of
        Object ob \<Rightarrow>
          (case attr_p ob of
             Some target_p \<Rightarrow> Inr (\<lambda>s. np_sub (target_p s) (arr3 (p_of (s lnk))))
           | None \<Rightarrow> Inl (NoAttribute ''p''))
      | Ndarray xs \<Rightarrow> Inr (\<lambda>s. np_sub xs (arr3 (p_of (s lnk))))
      | PyList xs \<Rightarrow> Inl (NoAttribute ''p''))"

definition LinkPosTask_init ::
  "robot \<Rightarrow> nat \<Rightarrow> target \<Rightarrow> real option \<Rightarrow> real option \<Rightarrow> nat list option \<Rightarrow> error + task" where
  "LinkPosTask_init rob lnk target gain' weight' exclude_dofs' =
     (let target = array_of_list target in
      bind_error (LinkPosTask_residual lnk target) (\<lambda>residual.
        Inr \<lparr>link = lnk, jacobian = compute_link_pos_jacobian rob lnk,
             pos_residual = residual, gain = gain', weight = weight',
             exclude_dofs = exclude_dofs'\<rparr>))"

text \<open>
  The body of the closure \<^verbatim>\<open>pos_residual\<close> of \<^verbatim>\<open>LinkPoseTask\<close>, which the source writes
  twice, once over \<^verbatim>\<open>target.pose\<close> and once over \<^verbatim>\<open>target\<close>: here once, over the value
  \<open>target_pose\<close> of either and the value \<open>link_pose\<close> of \<^verbatim>\<open>link.pose\<close>.
\<close>

definition pose_residual :: "real list \<Rightarrow> real list \<Rightarrow> error + real list" where
  "pose_residual target_pose link_pose =
     bind_error (np_sub target_pose link_pose) (\<lambda>residual.
     bind_error (np_dot (take 4 residual) (take 4 residual)) (\<lambda>d.
       if d > 1 then
         bind_error (np_mul oppose_quat target_pose) (\<lambda>opposed. np_sub opposed link_pose)
       else Inr residual))"

definition LinkPoseTask_residual ::
  "extern \<Rightarrow> nat \<Rightarrow> target \<Rightarrow> error + (scene \<Rightarrow> error + real list)" where
  "LinkPoseTask_residual E lnk target =
     (case target of
        Object ob \<Rightarrow>
          (case attr_pose ob of
             Some target_pose \<Rightarrow>
               Inr (\<lambda>s. pose_residual (target_pose s) (arr7 (pose E (s lnk))))
           | None \<Rightarrow> Inl (NoAttribute ''pose''))
      | Ndarray xs \<Rightarrow> Inr (\<lambda>s. pose_residual xs (arr7 (pose E (s lnk))))
      | PyList xs \<Rightarrow> Inl (NoAttribute ''pose''))"

definition LinkPoseTask_init ::
  "extern \<Rightarrow> robot \<Rightarrow> nat \<Rightarrow> target \<Rightarrow> real option \<Rightarrow> real option \<Rightarrow> nat list option
     \<Rightarrow> error + task" where
  "LinkPoseTask_init E rob lnk target gain' weight' exclude_dofs' =
     (let target = array_of_list target in
      bind_error (LinkPoseTask_residual E lnk target) (\<lambda>residual.
        Inr \<lparr>link = lnk, jacobian = compute_link_pose_jacobian rob lnk,
             pos_residual = residual, gain = gain', weight = weight',
             exclude_dofs = exclude_dofs'\<rparr>))"

text \<open>Evaluating the residual of the outcome of a constructor: an error of the
  constructor stays, a task is asked for its residual in the scene.\<close>

definition residual_in :: "scene \<Rightarrow> error + task \<Rightarrow> error + real list" where
  "residual_in s r = bind_error r (\<lambda>tsk. pos_residual tsk s)"

text \<open>Python's \<^verbatim>\<open>hasattr(target, 'p')\<close>, \<^verbatim>\<open>hasattr(target, 'pose')\<close>, \<^verbatim>\<open>type(target) is list\<close> and
  \<^verbatim>\<open>type(target) is ndarray\<close>, for the statements about the constructors.\<close>

fun hasattr_p :: "target \<Rightarrow> bool" where
  "hasattr_p (Object ob) = (attr_p ob \<noteq> None)"
| "hasattr_p target = False"

fun hasattr_pose :: "target \<Rightarrow> bool" where
  "hasattr_pose (Object ob) = (attr_pose ob \<noteq> None)"
| "hasattr_pose target = False"

fun is_list :: "target \<Rightarrow> bool" where
  "is_list (PyList xs) = True"
| "is_list target = False"

fun is_ndarray :: "target \<Rightarrow> bool" where
  "is_ndarray (Ndarray xs) = True"
| "is_ndarray target = False"

subsection \<open>Values for the examples\<close>

text \<open>The identity transform, a body, a point at rest and a scene whose bodies are all at
  the identity transform.\<close>

definition identity_T :: mat4 where
  "identity_T = ((1, 0, 0, 0), (0, 1, 0, 0), (0, 0, 1, 0), (0, 0, 0, 1))"

definition identity_body :: body where
  "identity_body = \<lparr>rave = identity_T\<rparr>"

text \<open>Two bodies at the position \<open>(1, 2, 3)\<close>: one turned by half a turn about the axis z,
  whose rotation block has trace \<open>-1\<close>; one whose rotation block is the rotation of the
  unit quaternions \<open>(1/3, -2/3, -2/3, 0)\<close> and \<open>(-1/3, 2/3, 2/3, 0)\<close>.\<close>

definition half_turn_body :: body where
  "half_turn_body = \<lparr>rave = ((- 1, 0, 0, 1), (0, - 1, 0, 2), (0, 0, 1, 3), (0, 0, 0, 1))\<rparr>"

definition tilted_body :: body where
  "tilted_body =
     \<lparr>rave = ((1 / 9, 8 / 9, - (4 / 9), 1), (8 / 9, 1 / 9, 4 / 9, 2),
              (4 / 9, - (4 / 9), - (7 / 9), 3), (0, 0, 0, 1))\<rparr>"

definition point_at_rest :: point where
  "point_at_rest = \<lparr>rave = identity_T, Point_pd = (0, 0, 0)\<rparr>"

definition identity_scene :: scene where
  "identity_scene = (\<lambda>h. identity_body)"

text \<open>The scene after \<^verbatim>\<open>set_pos\<close> has moved the body of handle 0 to \<open>(1, 0, 0)\<close>.\<close>

definition moved_scene :: scene where
  "moved_scene = identity_scene (0 := set_pos (1, 0, 0) (identity_scene 0))"

definition example_robot :: robot where
  "example_robot =
     \<lparr>compute_link_pos_jacobian = (\<lambda>lnk s. []), compute_link_pose_jacobian = (\<lambda>lnk s. [])\<rparr>"

text \<open>
  One instance of the external conversions, with the usual formulas: the quaternion of
  a rotation matrix of trace above \<open>-1\<close>, here returned with a negative scalar part (the
  representative that \<^const>\<open>pose\<close> has to negate); the rotation matrix of a unit
  quaternion; the rotation matrix of roll, pitch and yaw about the axes x, y and z,
  and the angles of a unit quaternion.
\<close>

definition atan2 :: "real \<Rightarrow> real \<Rightarrow> real" where
  "atan2 y x =
     (if 0 < x then arctan (y / x)
      else if x < 0 \<and> 0 \<le> y then arctan (y / x) + pi
      else if x < 0 then arctan (y / x) - pi
      else if 0 < y then pi / 2
      else if y < 0 then - (pi / 2)
      else 0)"

fun example_quatFromMatrix :: "mat3 \<Rightarrow> vec4" where
  "example_quatFromMatrix ((r00, r01, r02), (r10, r11, r12), (r20, r21, r22)) =
     (let w = sqrt (1 + (r00 + r11 + r22)) / 2
      in (- w, - ((r21 - r12) / (4 * w)), - ((r02 - r20) / (4 * w)), - ((r10 - r01) / (4 * w))))"

fun example_matrixFromQuat :: "vec4 \<Rightarrow> mat3" where
  "example_matrixFromQuat (w, qx, qy, qz) =
     ((1 - 2 * (qy * qy + qz * qz), 2 * (qx * qy - w * qz), 2 * (qx * qz + w * qy)),
      (2 * (qx * qy + w * qz), 1 - 2 * (qx * qx + qz * qz), 2 * (qy * qz - w * qx)),
      (2 * (qx * qz - w * qy), 2 * (qy * qz + w * qx), 1 - 2 * (qx * qx + qy * qy)))"

definition example_rotation_matrix_from_rpy :: "real \<Rightarrow> real \<Rightarrow> real \<Rightarrow> mat3" where
  "example_rotation_matrix_from_rpy r p y =
     ((cos y * cos p, cos y * sin p * sin r - sin y * cos r, cos y * sin p * cos r + sin y * sin r),
      (sin y * cos p, sin y * sin p * sin r + cos y * cos r, sin y * sin p * cos r - cos y * sin r),
      (- sin p, cos p * sin r, cos p * cos r))"

fun example_rpy_from_quat :: "vec4 \<Rightarrow> vec3" where
  "example_rpy_from_quat (w, qx, qy, qz) =
     (atan2 (2 * (w * qx + qy * qz)) (1 - 2 * (qx * qx + qy * qy)),
      arcsin (2 * (w * qy - qz * qx)),
      atan2 (2 * (w * qz + qx * qy)) (1 - 2 * (qy * qy + qz * qz)))"

definition example_extern :: extern where
  "example_extern =
     \<lparr>quatFromMatrix = example_quatFromMatrix,
      matrixFromQuat = example_matrixFromQuat,
      rotation_matrix_from_rpy = example_rotation_matrix_from_rpy,
      rpy_from_quat = example_rpy_from_quat\<rparr>"

text \<open>
  A second instance, which differs from the first by the quaternion of a rotation
  matrix: the usual four cases, by the trace and the largest entry of the diagonal, so
  that no case divides by zero on a rotation (the first instance does at half a
  turn). The scalar part that it returns is negative for some rotations.
\<close>

fun complete_quatFromMatrix :: "mat3 \<Rightarrow> vec4" where
  "complete_quatFromMatrix ((r00, r01, r02), (r10, r11, r12), (r20, r21, r22)) =
     (if 0 < r00 + r11 + r22 then
        (let s = 2 * sqrt (1 + r00 + r11 + r22)
         in (s / 4, (r21 - r12) / s, (r02 - r20) / s, (r10 - r01) / s))
      else if r11 < r00 \<and> r22 < r00 then
        (let s = 2 * sqrt (1 + r00 - r11 - r22)
         in ((r21 - r12) / s, s / 4, (r01 + r10) / s, (r02 + r20) / s))
      else if r22 < r11 then
        (let s = 2 * sqrt (1 + r11 - r00 - r22)
         in ((r02 - r20) / s, (r01 + r10) / s, s / 4, (r12 + r21) / s))
      else
        (let s = 2 * sqrt (1 + r22 - r00 - r11)
         in ((r10 - r01) / s, (r02 + r20) / s, (r12 + r21) / s, s / 4)))"

definition complete_extern :: extern where
  "complete_extern = example_extern\<lparr>quatFromMatrix := complete_quatFromMatrix\<rparr>"

section \<open>Properties of bodies\<close>

subsection \<open>Slices and assignments\<close>

lemma mat4_cases:
  obtains r00 r01 r02 p0 r10 r11 r12 p1 r20 r21 r22 p2 bt
  where "T = ((r00, r01, r02, p0), (r10, r11, r12, p1), (r20, r21, r22, p2), bt)"
  by (metis prod_cases4)

lemmas body_defs = T_of_def R_of_def p_of_def x_of_def y_of_def z_of_def set_transform_def

lemma col3_set_col3: "col3 (set_col3 T v) = v"
  by (cases T rule: mat4_cases; cases v rule: prod_cases3) simp

lemma block33_set_col3: "block33 (set_col3 T v) = block33 T"
  by (cases T rule: mat4_cases; cases v rule: prod_cases3) simp

lemma set_col3_col3: "set_col3 T (col3 T) = T"
  by (cases T rule: mat4_cases) simp

lemma set_x_frame:
  "x_of (set_x v self) = v \<and> y_of (set_x v self) = y_of self \<and> z_of (set_x v self) = z_of self
   \<and> R_of (set_x v self) = R_of self \<and> bottom_row (T_of (set_x v self)) = bottom_row (T_of self)"
  by (cases "rave self" rule: mat4_cases) (simp add: set_x_def body_defs)

lemma set_y_frame:
  "y_of (set_y v self) = v \<and> x_of (set_y v self) = x_of self \<and> z_of (set_y v self) = z_of self
   \<and> R_of (set_y v self) = R_of self \<and> bottom_row (T_of (set_y v self)) = bottom_row (T_of self)"
  by (cases "rave self" rule: mat4_cases) (simp add: set_y_def body_defs)

lemma set_z_frame:
  "z_of (set_z v self) = v \<and> x_of (set_z v self) = x_of self \<and> y_of (set_z v self) = y_of self
   \<and> R_of (set_z v self) = R_of self \<and> bottom_row (T_of (set_z v self)) = bottom_row (T_of self)"
  by (cases "rave self" rule: mat4_cases) (simp add: set_z_def body_defs)

lemma set_pos_frame:
  "p_of (set_pos pos self) = pos \<and> R_of (set_pos pos self) = R_of self
   \<and> bottom_row (T_of (set_pos pos self)) = bottom_row (T_of self)"
  by (cases "rave self" rule: mat4_cases; cases pos rule: prod_cases3)
     (simp add: set_pos_def body_defs)

lemma set_rotation_matrix_frame:
  "R_of (set_rotation_matrix R self) = R \<and> p_of (set_rotation_matrix R self) = p_of self
   \<and> bottom_row (T_of (set_rotation_matrix R self)) = bottom_row (T_of self)"
proof -
  obtain s00 s01 s02 s10 s11 s12 s20 s21 s22
    where R: "R = ((s00, s01, s02), (s10, s11, s12), (s20, s21, s22))"
    by (metis prod_cases3)
  show ?thesis
    by (cases "rave self" rule: mat4_cases) (simp add: R set_rotation_matrix_def body_defs)
qed

lemma pose_translation_pose: "pose_translation (pose E self) = p_of self"
  by (cases "rave self" rule: mat4_cases)
     (simp add: pose_def GetTransformPose_def pose_translation_def p_of_def T_of_def
        split: prod.splits)

lemma p_of_set_pose: "p_of (set_pose E P self) = pose_translation P"
  by (simp add: set_pose_def matrixFromPose_def set_transform_def pose_translation_def
      p_of_def T_of_def split: prod.splits)

lemma set_quat_frame:
  "pose_translation (pose E (set_quat E q self)) = pose_translation (pose E self)"
proof -
  obtain w qx qy qz p0 p1 p2 where P: "pose E self = (w, qx, qy, qz, p0, p1, p2)"
    by (metis prod_cases7)
  obtain w' qx' qy' qz' where Q: "q = (w', qx', qy', qz')"
    by (metis prod_cases4)
  show ?thesis
    by (simp add: set_quat_def P Q pose_translation_pose p_of_set_pose)
       (simp add: pose_translation_def)
qed

subsection \<open>The sign of the quaternion of a pose\<close>

text \<open>
  Claim C2. Whatever the transform of the body and whatever quaternion the engine
  returns for it, the pose returned by \<^const>\<open>pose\<close> has a scalar component that is not
  negative; its quaternion is the engine's one, with all four components negated when
  the engine's scalar component is negative; its translation is the engine's one.
\<close>

theorem pose_scalar_nonneg:
  "0 \<le> pose_scalar (pose E self)
   \<and> pose_quat (pose E self) =
       (if pose_scalar (GetTransformPose E (T_of self)) < 0
        then neg4 (pose_quat (GetTransformPose E (T_of self)))
        else pose_quat (GetTransformPose E (T_of self)))
   \<and> pose_translation (pose E self) = pose_translation (GetTransformPose E (T_of self))"
proof -
  obtain w qx qy qz p0 p1 p2
    where G: "GetTransformPose E (rave self) = (w, qx, qy, qz, p0, p1, p2)"
    by (metis prod_cases7)
  show ?thesis
    by (simp add: pose_def G T_of_def pose_scalar_def pose_quat_def pose_translation_def
        neg4_def)
qed

subsection \<open>The integrator of a point\<close>

lemma integrate_acceleration_general:
  "p_of (integrate_acceleration pdd dt self) =
     vadd (vadd (p_of self) (vscale (pd_of self) dt)) (vscale (vscale pdd 0.5) (dt ^ 2))
   \<and> pd_of (integrate_acceleration pdd dt self) = vadd (pd_of self) (vscale pdd dt)
   \<and> R_of (integrate_acceleration pdd dt self) = R_of self"
  by (simp add: integrate_acceleration_def Let_def set_velocity_def pd_of_def set_pos_def
      body_defs col3_set_col3 block33_set_col3)

lemma integrate_acceleration_zero: "integrate_acceleration pdd 0 self = self"
proof -
  obtain p0 p1 p2 where P: "col3 (rave self) = (p0, p1, p2)" by (metis prod_cases3)
  obtain v0 v1 v2 where V: "Point_pd self = (v0, v1, v2)" by (metis prod_cases3)
  obtain a0 a1 a2 where A: "pdd = (a0, a1, a2)" by (metis prod_cases3)
  have "set_col3 (rave self) (p0, p1, p2) = rave self"
    using set_col3_col3 [of "rave self"] by (simp add: P)
  then show ?thesis
    by (simp add: integrate_acceleration_def Let_def set_velocity_def pd_of_def set_pos_def
        body_defs P V A)
qed

text \<open>
  Claim C3. For a point at position \<open>p\<close> with velocity \<open>v\<close>, an acceleration \<open>a\<close> and any
  duration \<open>dt\<close> (negative ones included), \<^const>\<open>integrate_acceleration\<close> leaves the
  point at \<open>p + v dt + 0.5 a dt\<^sup>2\<close>, computed from the velocity before the call, with the
  velocity \<open>v + a dt\<close>; the rotation block is untouched, and a duration of zero changes
  nothing at all.
\<close>

theorem integrate_acceleration_kinematics:
  assumes "p_of self = (p0, p1, p2)" and "pd_of self = (v0, v1, v2)"
  shows "p_of (integrate_acceleration (a0, a1, a2) dt self) =
           (p0 + v0 * dt + 0.5 * a0 * dt ^ 2, p1 + v1 * dt + 0.5 * a1 * dt ^ 2,
            p2 + v2 * dt + 0.5 * a2 * dt ^ 2)
         \<and> pd_of (integrate_acceleration (a0, a1, a2) dt self) =
           (v0 + a0 * dt, v1 + a1 * dt, v2 + a2 * dt)
         \<and> R_of (integrate_acceleration (a0, a1, a2) dt self) = R_of self
         \<and> integrate_acceleration (a0, a1, a2) 0 self = self"
  using integrate_acceleration_general [of "(a0, a1, a2)" dt self] assms
  by (simp add: integrate_acceleration_zero)

text \<open>The instance of the specification: a point at rest at the origin, the acceleration
  \<open>(0, 0, -9.8)\<close> during one second.\<close>

theorem integrate_acceleration_free_fall:
  "p_of point_at_rest = (0, 0, 0) \<and> pd_of point_at_rest = (0, 0, 0)
   \<and> p_of (integrate_acceleration (0, 0, - 9.8) 1 point_at_rest) = (0, 0, - 4.9)
   \<and> pd_of (integrate_acceleration (0, 0, - 9.8) 1 point_at_rest) = (0, 0, - 9.8)
   \<and> integrate_acceleration (0, 0, - 9.8) 0 point_at_rest = point_at_rest"
proof -
  have P: "p_of point_at_rest = (0, 0, 0)"
    by (simp add: point_at_rest_def identity_T_def p_of_def T_of_def)
  have V: "pd_of point_at_rest = (0, 0, 0)"
    by (simp add: point_at_rest_def pd_of_def)
  show ?thesis
    using integrate_acceleration_kinematics [OF P V, of 0 0 "- 9.8" 1] P V by simp
qed

subsection \<open>Mutators of one component\<close>

text \<open>
  Claim C4. \<^const>\<open>set_x\<close> leaves the coordinates y and z and the rotation block as they
  were, and likewise \<^const>\<open>set_y\<close> and \<^const>\<open>set_z\<close>; \<^const>\<open>set_pos\<close> leaves the
  rotation block, \<^const>\<open>set_rotation_matrix\<close> the translation, and \<^const>\<open>set_quat\<close> the
  translation components of the pose.
\<close>

theorem partial_mutators_preserve:
  "(y_of (set_x v self) = y_of self \<and> z_of (set_x v self) = z_of self
      \<and> R_of (set_x v self) = R_of self)
   \<and> (x_of (set_y v self) = x_of self \<and> z_of (set_y v self) = z_of self
      \<and> R_of (set_y v self) = R_of self)
   \<and> (x_of (set_z v self) = x_of self \<and> y_of (set_z v self) = y_of self
      \<and> R_of (set_z v self) = R_of self)
   \<and> R_of (set_pos pos self) = R_of self
   \<and> p_of (set_rotation_matrix R self) = p_of self
   \<and> pose_translation (pose E (set_quat E q self)) = pose_translation (pose E self)"
  using set_x_frame [of v self] set_y_frame [of v self] set_z_frame [of v self]
    set_pos_frame [of pos self] set_rotation_matrix_frame [of R self]
    set_quat_frame [of E q self]
  by simp

subsection \<open>Twists\<close>

text \<open>
  Claim C5. \<^const>\<open>apply_twist\<close> moves the position \<open>p\<close> to \<open>p + v dt\<close> (the velocity is
  not rotated) and replaces the rotation block \<open>R\<close> by \<open>R + (skew(\<omega>) R) dt\<close>, where \<open>R\<close> is
  the block before the call, with no renormalisation; the last row of the transform
  stays.
\<close>

theorem apply_twist_update:
  "p_of (apply_twist v omega dt self) = vadd (p_of self) (vscale v dt)
   \<and> R_of (apply_twist v omega dt self) =
       madd (R_of self) (mscale (mdot (crossmat omega) (R_of self)) dt)
   \<and> bottom_row (T_of (apply_twist v omega dt self)) = bottom_row (T_of self)"
  by (simp add: apply_twist_def Let_def set_pos_frame set_rotation_matrix_frame)

section \<open>Properties of link tasks\<close>

subsection \<open>Residuals of the constructed tasks\<close>

lemmas np_defs = np_sub_def np_mul_def np_dot_def broadcast_def bind_error_def

lemma identity_pose: "pose example_extern identity_body = (1, 0, 0, 0, 0, 0, 0)"
  by (simp add: pose_def GetTransformPose_def example_extern_def identity_body_def identity_T_def)

lemma residual_in_pos_array:
  "residual_in s (LinkPosTask_init rob lnk (Ndarray xs) g wt ex) = np_sub xs (arr3 (p_of (s lnk)))"
  by (simp add: residual_in_def LinkPosTask_init_def LinkPosTask_residual_def bind_error_def)

lemma residual_in_pos_object:
  "attr_p ob = Some tp \<Longrightarrow>
   residual_in s (LinkPosTask_init rob lnk (Object ob) g wt ex) = np_sub (tp s) (arr3 (p_of (s lnk)))"
  by (simp add: residual_in_def LinkPosTask_init_def LinkPosTask_residual_def bind_error_def)

lemma residual_in_pose_array:
  "residual_in s (LinkPoseTask_init E rob lnk (Ndarray xs) g wt ex) =
     pose_residual xs (arr7 (pose E (s lnk)))"
  by (simp add: residual_in_def LinkPoseTask_init_def LinkPoseTask_residual_def bind_error_def)

lemma residual_in_pose_object:
  "attr_pose ob = Some tp \<Longrightarrow>
   residual_in s (LinkPoseTask_init E rob lnk (Object ob) g wt ex) =
     pose_residual (tp s) (arr7 (pose E (s lnk)))"
  by (simp add: residual_in_def LinkPoseTask_init_def LinkPoseTask_residual_def bind_error_def)

lemma pose_residual_7:
  "pose_residual [t0, t1, t2, t3, t4, t5, t6] [l0, l1, l2, l3, l4, l5, l6] =
     Inr (if 1 < (t0 - l0) * (t0 - l0) + (t1 - l1) * (t1 - l1) + (t2 - l2) * (t2 - l2)
                 + (t3 - l3) * (t3 - l3)
          then [- t0 - l0, - t1 - l1, - t2 - l2, - t3 - l3, t4 - l4, t5 - l5, t6 - l6]
          else [t0 - l0, t1 - l1, t2 - l2, t3 - l3, t4 - l4, t5 - l5, t6 - l6])"
  by (simp add: pose_residual_def np_defs oppose_quat_def add.assoc)

lemma isl_np_sub_3: "isl (np_sub xs [a, b, c]) = (length xs \<noteq> 3 \<and> length xs \<noteq> 1)"
  by (auto simp add: np_sub_def broadcast_def)

lemma isl_pose_residual_7:
  assumes "length ys = 7"
  shows "isl (pose_residual xs ys) = (length xs \<noteq> 7 \<and> length xs \<noteq> 1)"
proof (cases "length xs = 7 \<or> length xs = 1")
  case False
  then show ?thesis
    using assms by (auto simp add: pose_residual_def np_defs)
next
  case True
  then show ?thesis
    using assms
    by (auto simp add: pose_residual_def np_defs oppose_quat_def)
qed

lemma p_of_identity_scene: "p_of (identity_scene h) = (0, 0, 0)"
  by (simp add: identity_scene_def identity_body_def identity_T_def p_of_def T_of_def)

lemma LinkPosTask_init_list:
  "LinkPosTask_init rob lnk (PyList xs) g wt ex = LinkPosTask_init rob lnk (Ndarray xs) g wt ex"
  by (simp add: LinkPosTask_init_def)

lemma LinkPosTask_init_array_ok: "\<not> isl (LinkPosTask_init rob lnk (Ndarray xs) g wt ex)"
  by (simp add: LinkPosTask_init_def LinkPosTask_residual_def bind_error_def)

subsection \<open>The residual of a pose task\<close>

text \<open>
  Claim C1, amended. For a target pose \<open>P\<close> of seven components, given as an array or
  read from the attribute \<^verbatim>\<open>pose\<close> of an object, and the pose \<open>L\<close> of the link, the
  residual is \<open>P - L\<close> component by component, unless the squared norm of its first four
  components exceeds 1: then it is \<open>-P - L\<close> on the four quaternion components and still
  \<open>P - L\<close> on the three translation components. The residual against \<open>P\<close> and the one
  against \<open>P\<close> with its quaternion negated are equal whenever exactly one of the two
  squared norms \<open>|P\<^sub>q - L\<^sub>q|\<^sup>2\<close> and \<open>|P\<^sub>q + L\<^sub>q|\<^sup>2\<close> exceeds 1.
\<close>

theorem LinkPoseTask_residual_policy:
  assumes "pose E (s lnk) = (l0, l1, l2, l3, l4, l5, l6)"
  shows
    "residual_in s (LinkPoseTask_init E rob lnk (Ndarray [t0, t1, t2, t3, t4, t5, t6]) g wt ex) =
       Inr (if 1 < (t0 - l0) * (t0 - l0) + (t1 - l1) * (t1 - l1) + (t2 - l2) * (t2 - l2)
                   + (t3 - l3) * (t3 - l3)
            then [- t0 - l0, - t1 - l1, - t2 - l2, - t3 - l3, t4 - l4, t5 - l5, t6 - l6]
            else [t0 - l0, t1 - l1, t2 - l2, t3 - l3, t4 - l4, t5 - l5, t6 - l6])
     \<and> (attr_pose ob = Some tp \<and> tp s = [t0, t1, t2, t3, t4, t5, t6] \<longrightarrow>
          residual_in s (LinkPoseTask_init E rob lnk (Object ob) g wt ex) =
          residual_in s (LinkPoseTask_init E rob lnk (Ndarray [t0, t1, t2, t3, t4, t5, t6]) g wt ex))
     \<and> ((1 < (t0 - l0) * (t0 - l0) + (t1 - l1) * (t1 - l1) + (t2 - l2) * (t2 - l2)
               + (t3 - l3) * (t3 - l3))
          \<noteq> (1 < (- t0 - l0) * (- t0 - l0) + (- t1 - l1) * (- t1 - l1)
                   + (- t2 - l2) * (- t2 - l2) + (- t3 - l3) * (- t3 - l3)) \<longrightarrow>
          residual_in s
            (LinkPoseTask_init E rob lnk (Ndarray [- t0, - t1, - t2, - t3, t4, t5, t6]) g wt ex) =
          residual_in s
            (LinkPoseTask_init E rob lnk (Ndarray [t0, t1, t2, t3, t4, t5, t6]) g wt ex))"
proof -
  have L: "arr7 (pose E (s lnk)) = [l0, l1, l2, l3, l4, l5, l6]"
    by (simp add: assms arr7_def)
  show ?thesis
    by (auto simp add: residual_in_pose_array residual_in_pose_object L pose_residual_7)
qed

text \<open>The instance of the specification: the target quaternion \<open>(-1, 0, 0, 0)\<close> against a
  link at the identity, whose quaternion is \<open>(1, 0, 0, 0)\<close>; the residual is zero, as it
  is for the target quaternion \<open>(1, 0, 0, 0)\<close>.\<close>

theorem LinkPoseTask_opposite_sign_target:
  "pose example_extern (identity_scene 0) = (1, 0, 0, 0, 0, 0, 0)
   \<and> residual_in identity_scene
       (LinkPoseTask_init example_extern example_robot 0 (Ndarray [- 1, 0, 0, 0, 0, 0, 0])
          None None None) = Inr [0, 0, 0, 0, 0, 0, 0]
   \<and> residual_in identity_scene
       (LinkPoseTask_init example_extern example_robot 0
          (Object \<lparr>attr_p = None, attr_pose = Some (\<lambda>s. [- 1, 0, 0, 0, 0, 0, 0])\<rparr>)
          None None None) = Inr [0, 0, 0, 0, 0, 0, 0]
   \<and> residual_in identity_scene
       (LinkPoseTask_init example_extern example_robot 0 (Ndarray [1, 0, 0, 0, 0, 0, 0])
          None None None) = Inr [0, 0, 0, 0, 0, 0, 0]"
proof -
  have L: "pose example_extern (identity_scene 0) = (1, 0, 0, 0, 0, 0, 0)"
    by (simp add: identity_scene_def identity_pose)
  show ?thesis
    using L
      LinkPoseTask_residual_policy [where E = example_extern and s = identity_scene
        and lnk = 0 and ?l0.0 = 1 and ?l1.0 = 0 and ?l2.0 = 0 and ?l3.0 = 0 and ?l4.0 = 0
        and ?l5.0 = 0 and ?l6.0 = 0 and ?t0.0 = "- 1" and ?t1.0 = 0 and ?t2.0 = 0
        and ?t3.0 = 0 and ?t4.0 = 0 and ?t5.0 = 0 and ?t6.0 = 0 and rob = example_robot
        and g = None and wt = None and ex = None
        and ob = "\<lparr>attr_p = None, attr_pose = Some (\<lambda>s. [- 1, 0, 0, 0, 0, 0, 0])\<rparr>"
        and tp = "\<lambda>s. [- 1, 0, 0, 0, 0, 0, 0]"]
    by simp
qed

text \<open>
  The claim as it was stated fails when both squared norms exceed 1. The link is at the
  identity, with the quaternion \<open>(1, 0, 0, 0)\<close>; the target quaternion
  \<open>(0.28, 0.96, 0, 0)\<close> and its negation are unit quaternions of the same rotation, at
  the squared distances 1.44 and 2.56 of the link's quaternion. Each residual is computed
  from the negated target, so the two differ, and the residual against
  \<open>(0.28, 0.96, 0, 0)\<close> is the longer one.
\<close>

theorem LinkPoseTask_sign_dependent_residual:
  "residual_in identity_scene
     (LinkPoseTask_init example_extern example_robot 0 (Ndarray [0.28, 0.96, 0, 0, 0, 0, 0])
        None None None) = Inr [- 1.28, - 0.96, 0, 0, 0, 0, 0]
   \<and> residual_in identity_scene
       (LinkPoseTask_init example_extern example_robot 0
          (Ndarray [- 0.28, - 0.96, 0, 0, 0, 0, 0]) None None None) =
       Inr [- 0.72, 0.96, 0, 0, 0, 0, 0]
   \<and> residual_in identity_scene
       (LinkPoseTask_init example_extern example_robot 0 (Ndarray [0.28, 0.96, 0, 0, 0, 0, 0])
          None None None)
     \<noteq> residual_in identity_scene
         (LinkPoseTask_init example_extern example_robot 0
            (Ndarray [- 0.28, - 0.96, 0, 0, 0, 0, 0]) None None None)"
  by (simp add: residual_in_pose_array identity_scene_def identity_pose arr7_def pose_residual_7)

subsection \<open>What the constructors accept\<close>

text \<open>
  Claim C8, amended. The constructor of a position task raises exactly when the target
  has no attribute \<^verbatim>\<open>p\<close> and is neither a list nor an array, the one of a pose task
  exactly when the target has no attribute \<^verbatim>\<open>pose\<close> and is neither a list nor an array:
  the length of a list or of an array is not looked at. For an array target the
  evaluation of the residual raises numpy's shape error, in every scene, exactly when
  the length is neither the dimension of the task (3, or 7) nor 1.
\<close>

theorem LinkTask_init_raises_iff:
  "isl (LinkPosTask_init rob lnk target g wt ex) =
     (\<not> hasattr_p target \<and> \<not> is_list target \<and> \<not> is_ndarray target)
   \<and> isl (LinkPoseTask_init E rob lnk target g wt ex) =
     (\<not> hasattr_pose target \<and> \<not> is_list target \<and> \<not> is_ndarray target)
   \<and> isl (residual_in s (LinkPosTask_init rob lnk (Ndarray xs) g wt ex)) =
     (length xs \<noteq> 3 \<and> length xs \<noteq> 1)
   \<and> isl (residual_in s (LinkPoseTask_init E rob lnk (Ndarray xs) g wt ex)) =
     (length xs \<noteq> 7 \<and> length xs \<noteq> 1)"
proof -
  have 1: "isl (LinkPosTask_init rob lnk target g wt ex) =
     (\<not> hasattr_p target \<and> \<not> is_list target \<and> \<not> is_ndarray target)"
    by (cases target)
       (auto simp add: LinkPosTask_init_def LinkPosTask_residual_def bind_error_def
          split: option.splits)
  have 2: "isl (LinkPoseTask_init E rob lnk target g wt ex) =
     (\<not> hasattr_pose target \<and> \<not> is_list target \<and> \<not> is_ndarray target)"
    by (cases target)
       (auto simp add: LinkPoseTask_init_def LinkPoseTask_residual_def bind_error_def
          split: option.splits)
  have 3: "isl (residual_in s (LinkPosTask_init rob lnk (Ndarray xs) g wt ex)) =
     (length xs \<noteq> 3 \<and> length xs \<noteq> 1)"
    by (cases "p_of (s lnk)" rule: prod_cases3)
       (simp add: residual_in_pos_array arr3_def isl_np_sub_3)
  have 4: "isl (residual_in s (LinkPoseTask_init E rob lnk (Ndarray xs) g wt ex)) =
     (length xs \<noteq> 7 \<and> length xs \<noteq> 1)"
    by (cases "pose E (s lnk)" rule: prod_cases7)
       (simp add: residual_in_pose_array arr7_def isl_pose_residual_7)
  from 1 2 3 4 show ?thesis by simp
qed

text \<open>The claim as it was stated fails on an array of two numbers: the constructor of a
  position task returns a task, and the error comes when the residual is evaluated.\<close>

theorem LinkPosTask_init_accepts_two_vector:
  "\<not> isl (LinkPosTask_init example_robot 0 (Ndarray [1, 2]) None None None)
   \<and> residual_in identity_scene
       (LinkPosTask_init example_robot 0 (Ndarray [1, 2]) None None None) = Inl ValueError"
  by (simp add: LinkPosTask_init_array_ok residual_in_pos_array p_of_identity_scene arr3_def
      np_sub_def broadcast_def)

subsection \<open>The residual of a position task\<close>

text \<open>
  Claim C9, amended. For a position task whose target is an array or a list of three
  numbers, or a body, the residual evaluated in a scene is the position of the target
  minus the position of the link in that scene, a vector of three components.
\<close>

theorem LinkPosTask_residual_is_difference:
  assumes "p_of (s lnk) = (p0, p1, p2)"
  shows
    "residual_in s (LinkPosTask_init rob lnk (Ndarray [t0, t1, t2]) g wt ex) =
       Inr [t0 - p0, t1 - p1, t2 - p2]
     \<and> residual_in s (LinkPosTask_init rob lnk (PyList [t0, t1, t2]) g wt ex) =
       Inr [t0 - p0, t1 - p1, t2 - p2]
     \<and> (p_of (s h) = (t0, t1, t2) \<longrightarrow>
          residual_in s (LinkPosTask_init rob lnk (Body_target E h) g wt ex) =
          Inr [t0 - p0, t1 - p1, t2 - p2])"
proof -
  have A: "residual_in s (LinkPosTask_init rob lnk (Ndarray [t0, t1, t2]) g wt ex) =
       Inr [t0 - p0, t1 - p1, t2 - p2]"
    by (simp add: residual_in_pos_array assms arr3_def np_sub_def broadcast_def)
  have B: "LinkPosTask_init rob lnk (PyList [t0, t1, t2]) g wt ex =
       LinkPosTask_init rob lnk (Ndarray [t0, t1, t2]) g wt ex"
    by (simp add: LinkPosTask_init_def)
  have C: "p_of (s h) = (t0, t1, t2) \<Longrightarrow>
          residual_in s (LinkPosTask_init rob lnk (Body_target E h) g wt ex) =
          Inr [t0 - p0, t1 - p1, t2 - p2]"
    by (simp add: Body_target_def residual_in_pos_object assms arr3_def np_sub_def
        broadcast_def)
  from A B C show ?thesis by simp
qed

text \<open>The instance of the specification: the target \<open>(1, 0, 0)\<close> and a link at the origin
  give \<open>(1, 0, 0)\<close>; once the link has been moved to \<open>(1, 0, 0)\<close> the same task gives
  \<open>(0, 0, 0)\<close>. The moved body, used as the target of a link at the origin, gives
  \<open>(1, 0, 0)\<close>.\<close>

theorem LinkPosTask_residual_follows_link:
  "p_of (identity_scene 0) = (0, 0, 0)
   \<and> residual_in identity_scene
       (LinkPosTask_init example_robot 0 (Ndarray [1, 0, 0]) None None None) = Inr [1, 0, 0]
   \<and> p_of (moved_scene 0) = (1, 0, 0)
   \<and> residual_in moved_scene
       (LinkPosTask_init example_robot 0 (Ndarray [1, 0, 0]) None None None) = Inr [0, 0, 0]
   \<and> residual_in moved_scene
       (LinkPosTask_init example_robot 0 (PyList [1, 0, 0]) None None None) = Inr [0, 0, 0]
   \<and> residual_in moved_scene
       (LinkPosTask_init example_robot 1 (Body_target example_extern 0) None None None) =
       Inr [1, 0, 0]"
proof -
  have P0: "p_of (identity_scene 0) = (0, 0, 0)"
    by (simp add: p_of_identity_scene)
  have P1: "p_of (moved_scene 0) = (1, 0, 0)"
    by (simp add: moved_scene_def set_pos_frame)
  have P2: "p_of (moved_scene 1) = (0, 0, 0)"
    by (simp add: moved_scene_def p_of_identity_scene)
  note inst = LinkPosTask_residual_is_difference [where rob = example_robot and g = None
      and wt = None and ex = None and E = example_extern and h = 0 and ?t0.0 = 1
      and ?t1.0 = 0 and ?t2.0 = 0]
  show ?thesis
    using P0 P1 P2
      inst [where s = identity_scene and lnk = 0 and ?p0.0 = 0 and ?p1.0 = 0 and ?p2.0 = 0]
      inst [where s = moved_scene and lnk = 0 and ?p0.0 = 1 and ?p1.0 = 0 and ?p2.0 = 0]
      inst [where s = moved_scene and lnk = 1 and ?p0.0 = 0 and ?p1.0 = 0 and ?p2.0 = 0]
    by simp
qed

text \<open>The claim as it was stated fails on a list of four numbers: the constructor returns
  a task, whose residual is numpy's shape error and no vector.\<close>

theorem LinkPosTask_four_list_residual:
  "\<not> isl (LinkPosTask_init example_robot 0 (PyList [1, 0, 0, 0]) None None None)
   \<and> residual_in identity_scene
       (LinkPosTask_init example_robot 0 (PyList [1, 0, 0, 0]) None None None) = Inl ValueError"
  by (simp add: LinkPosTask_init_list LinkPosTask_init_array_ok residual_in_pos_array
      p_of_identity_scene arr3_def np_sub_def broadcast_def)

subsection \<open>Lists as targets\<close>

text \<open>
  Claim C10. A list is accepted as the target of both tasks: the constructor returns
  the very task that it returns for the array of the same numbers, so every residual is
  the residual of that task.
\<close>

theorem list_target_is_array_target:
  "LinkPosTask_init rob lnk (PyList xs) g wt ex = LinkPosTask_init rob lnk (Ndarray xs) g wt ex
   \<and> \<not> isl (LinkPosTask_init rob lnk (PyList xs) g wt ex)
   \<and> residual_in s (LinkPosTask_init rob lnk (PyList xs) g wt ex) =
       residual_in s (LinkPosTask_init rob lnk (Ndarray xs) g wt ex)
   \<and> LinkPoseTask_init E rob lnk (PyList xs) g wt ex =
       LinkPoseTask_init E rob lnk (Ndarray xs) g wt ex
   \<and> \<not> isl (LinkPoseTask_init E rob lnk (PyList xs) g wt ex)
   \<and> residual_in s (LinkPoseTask_init E rob lnk (PyList xs) g wt ex) =
       residual_in s (LinkPoseTask_init E rob lnk (Ndarray xs) g wt ex)"
  by (simp add: LinkPosTask_init_def LinkPoseTask_init_def LinkPosTask_residual_def
      LinkPoseTask_residual_def bind_error_def)

section \<open>Properties that rest on the external conversions\<close>

subsection \<open>The algebra of a proper rotation\<close>

text \<open>
  The entries of a proper rotation satisfy: the rows are orthonormal; every entry is its
  own cofactor; the columns are orthonormal. From these follow the relations between
  the ten numbers \<open>4 q\<^sub>a q\<^sub>b\<close> of a quaternion \<open>q\<close> of the rotation, written with the
  entries of the matrix: \<open>K\<^sub>i\<^sub>a K\<^sub>i\<^sub>b = K\<^sub>i\<^sub>i K\<^sub>a\<^sub>b\<close>.
\<close>

lemma proper_rotation_rows:
  fixes r00 r01 r02 r10 r11 r12 r20 r21 r22 :: real
  assumes "proper_rotation ((r00, r01, r02), (r10, r11, r12), (r20, r21, r22))"
  shows N0: "r00 * r00 + r01 * r01 + r02 * r02 - 1 = 0"
    and N1: "r10 * r10 + r11 * r11 + r12 * r12 - 1 = 0"
    and N2: "r20 * r20 + r21 * r21 + r22 * r22 - 1 = 0"
    and O01: "r00 * r10 + r01 * r11 + r02 * r12 = 0"
    and O02: "r00 * r20 + r01 * r21 + r02 * r22 = 0"
    and O12: "r10 * r20 + r11 * r21 + r12 * r22 = 0"
    and D: "r00 * (r11 * r22 - r12 * r21) - r01 * (r10 * r22 - r12 * r20) + r02 * (r10 * r21 - r11 * r20) - 1 = 0"
  using assms by (simp_all add: proper_rotation_def identity3_def)

lemma sum_of_three_squares_zero:
  fixes a b c :: real
  assumes "a * a + b * b + c * c = 0"
  shows "a = 0" and "b = 0" and "c = 0"
proof -
  have "0 \<le> a * a" and "0 \<le> b * b" and "0 \<le> c * c" by simp_all
  with assms have "a * a = 0" and "b * b = 0" and "c * c = 0" by linarith+
  then show "a = 0" and "b = 0" and "c = 0" by simp_all
qed

lemma rotation_cofactors:
  fixes r00 r01 r02 r10 r11 r12 r20 r21 r22 :: real
  assumes N0: "r00 * r00 + r01 * r01 + r02 * r02 - 1 = 0"
    and N1: "r10 * r10 + r11 * r11 + r12 * r12 - 1 = 0"
    and N2: "r20 * r20 + r21 * r21 + r22 * r22 - 1 = 0"
    and O01: "r00 * r10 + r01 * r11 + r02 * r12 = 0"
    and O02: "r00 * r20 + r01 * r21 + r02 * r22 = 0"
    and O12: "r10 * r20 + r11 * r21 + r12 * r22 = 0"
    and D: "r00 * (r11 * r22 - r12 * r21) - r01 * (r10 * r22 - r12 * r20) + r02 * (r10 * r21 - r11 * r20) - 1 = 0"
  shows F00: "r11 * r22 - r12 * r21 - r00 = 0"
    and F01: "r12 * r20 - r10 * r22 - r01 = 0"
    and F02: "r10 * r21 - r11 * r20 - r02 = 0"
    and F10: "r21 * r02 - r22 * r01 - r10 = 0"
    and F11: "r22 * r00 - r20 * r02 - r11 = 0"
    and F12: "r20 * r01 - r21 * r00 - r12 = 0"
    and F20: "r01 * r12 - r02 * r11 - r20 = 0"
    and F21: "r02 * r10 - r00 * r12 - r21 = 0"
    and F22: "r00 * r11 - r01 * r10 - r22 = 0"
proof -
  have "(r11 * r22 - r12 * r21 - r00) * (r11 * r22 - r12 * r21 - r00) + (r12 * r20 - r10 * r22 - r01) * (r12 * r20 - r10 * r22 - r01) + (r10 * r21 - r11 * r20 - r02) * (r10 * r21 - r11 * r20 - r02) =
      ((r00 * r00 + r01 * r01 + r02 * r02 - 1) + 1) - 2 * ((r00 * (r11 * r22 - r12 * r21) - r01 * (r10 * r22 - r12 * r20) + r02 * (r10 * r21 - r11 * r20) - 1) + 1) + ((r10 * r10 + r11 * r11 + r12 * r12 - 1) + 1) * ((r20 * r20 + r21 * r21 + r22 * r22 - 1) + 1) - (r10 * r20 + r11 * r21 + r12 * r22) * (r10 * r20 + r11 * r21 + r12 * r22)"
    by (simp add: algebra_simps)
  also have "\<dots> = 0"
    by (simp only: N0 N1 N2 O12 D; simp)
  finally have S0: "(r11 * r22 - r12 * r21 - r00) * (r11 * r22 - r12 * r21 - r00) + (r12 * r20 - r10 * r22 - r01) * (r12 * r20 - r10 * r22 - r01) + (r10 * r21 - r11 * r20 - r02) * (r10 * r21 - r11 * r20 - r02) = 0" .
  have "(r21 * r02 - r22 * r01 - r10) * (r21 * r02 - r22 * r01 - r10) + (r22 * r00 - r20 * r02 - r11) * (r22 * r00 - r20 * r02 - r11) + (r20 * r01 - r21 * r00 - r12) * (r20 * r01 - r21 * r00 - r12) =
      ((r10 * r10 + r11 * r11 + r12 * r12 - 1) + 1) - 2 * ((r00 * (r11 * r22 - r12 * r21) - r01 * (r10 * r22 - r12 * r20) + r02 * (r10 * r21 - r11 * r20) - 1) + 1) + ((r20 * r20 + r21 * r21 + r22 * r22 - 1) + 1) * ((r00 * r00 + r01 * r01 + r02 * r02 - 1) + 1) - (r00 * r20 + r01 * r21 + r02 * r22) * (r00 * r20 + r01 * r21 + r02 * r22)"
    by (simp add: algebra_simps)
  also have "\<dots> = 0"
    by (simp only: N1 N2 N0 O02 D; simp)
  finally have S1: "(r21 * r02 - r22 * r01 - r10) * (r21 * r02 - r22 * r01 - r10) + (r22 * r00 - r20 * r02 - r11) * (r22 * r00 - r20 * r02 - r11) + (r20 * r01 - r21 * r00 - r12) * (r20 * r01 - r21 * r00 - r12) = 0" .
  have "(r01 * r12 - r02 * r11 - r20) * (r01 * r12 - r02 * r11 - r20) + (r02 * r10 - r00 * r12 - r21) * (r02 * r10 - r00 * r12 - r21) + (r00 * r11 - r01 * r10 - r22) * (r00 * r11 - r01 * r10 - r22) =
      ((r20 * r20 + r21 * r21 + r22 * r22 - 1) + 1) - 2 * ((r00 * (r11 * r22 - r12 * r21) - r01 * (r10 * r22 - r12 * r20) + r02 * (r10 * r21 - r11 * r20) - 1) + 1) + ((r00 * r00 + r01 * r01 + r02 * r02 - 1) + 1) * ((r10 * r10 + r11 * r11 + r12 * r12 - 1) + 1) - (r00 * r10 + r01 * r11 + r02 * r12) * (r00 * r10 + r01 * r11 + r02 * r12)"
    by (simp add: algebra_simps)
  also have "\<dots> = 0"
    by (simp only: N2 N0 N1 O01 D; simp)
  finally have S2: "(r01 * r12 - r02 * r11 - r20) * (r01 * r12 - r02 * r11 - r20) + (r02 * r10 - r00 * r12 - r21) * (r02 * r10 - r00 * r12 - r21) + (r00 * r11 - r01 * r10 - r22) * (r00 * r11 - r01 * r10 - r22) = 0" .
  show "r11 * r22 - r12 * r21 - r00 = 0"
    by (rule sum_of_three_squares_zero(1) [OF S0])
  show "r12 * r20 - r10 * r22 - r01 = 0"
    by (rule sum_of_three_squares_zero(2) [OF S0])
  show "r10 * r21 - r11 * r20 - r02 = 0"
    by (rule sum_of_three_squares_zero(3) [OF S0])
  show "r21 * r02 - r22 * r01 - r10 = 0"
    by (rule sum_of_three_squares_zero(1) [OF S1])
  show "r22 * r00 - r20 * r02 - r11 = 0"
    by (rule sum_of_three_squares_zero(2) [OF S1])
  show "r20 * r01 - r21 * r00 - r12 = 0"
    by (rule sum_of_three_squares_zero(3) [OF S1])
  show "r01 * r12 - r02 * r11 - r20 = 0"
    by (rule sum_of_three_squares_zero(1) [OF S2])
  show "r02 * r10 - r00 * r12 - r21 = 0"
    by (rule sum_of_three_squares_zero(2) [OF S2])
  show "r00 * r11 - r01 * r10 - r22 = 0"
    by (rule sum_of_three_squares_zero(3) [OF S2])
qed

lemma rotation_columns:
  fixes r00 r01 r02 r10 r11 r12 r20 r21 r22 :: real
  assumes D: "r00 * (r11 * r22 - r12 * r21) - r01 * (r10 * r22 - r12 * r20) + r02 * (r10 * r21 - r11 * r20) - 1 = 0"
    and F00: "r11 * r22 - r12 * r21 - r00 = 0"
    and F01: "r12 * r20 - r10 * r22 - r01 = 0"
    and F02: "r10 * r21 - r11 * r20 - r02 = 0"
    and F10: "r21 * r02 - r22 * r01 - r10 = 0"
    and F11: "r22 * r00 - r20 * r02 - r11 = 0"
    and F12: "r20 * r01 - r21 * r00 - r12 = 0"
    and F20: "r01 * r12 - r02 * r11 - r20 = 0"
    and F21: "r02 * r10 - r00 * r12 - r21 = 0"
    and F22: "r00 * r11 - r01 * r10 - r22 = 0"
  shows C0: "r00 * r00 + r10 * r10 + r20 * r20 - 1 = 0"
    and C1: "r01 * r01 + r11 * r11 + r21 * r21 - 1 = 0"
    and C2: "r02 * r02 + r12 * r12 + r22 * r22 - 1 = 0"
    and P01: "r00 * r01 + r10 * r11 + r20 * r21 = 0"
    and P02: "r00 * r02 + r10 * r12 + r20 * r22 = 0"
    and P12: "r01 * r02 + r11 * r12 + r21 * r22 = 0"
proof -
  have "r00 * r00 + r10 * r10 + r20 * r20 - 1 =
      - (r00 * (r11 * r22 - r12 * r21 - r00) + r10 * (r21 * r02 - r22 * r01 - r10) + r20 * (r01 * r12 - r02 * r11 - r20)) + (r00 * (r11 * r22 - r12 * r21) - r01 * (r10 * r22 - r12 * r20) + r02 * (r10 * r21 - r11 * r20) - 1)"
    by (simp add: algebra_simps)
  also have "\<dots> = 0"
    by (simp only: D F00 F10 F20; simp)
  finally show "r00 * r00 + r10 * r10 + r20 * r20 - 1 = 0" .
  have "r01 * r01 + r11 * r11 + r21 * r21 - 1 =
      - (r01 * (r12 * r20 - r10 * r22 - r01) + r11 * (r22 * r00 - r20 * r02 - r11) + r21 * (r02 * r10 - r00 * r12 - r21)) + (r00 * (r11 * r22 - r12 * r21) - r01 * (r10 * r22 - r12 * r20) + r02 * (r10 * r21 - r11 * r20) - 1)"
    by (simp add: algebra_simps)
  also have "\<dots> = 0"
    by (simp only: D F01 F11 F21; simp)
  finally show "r01 * r01 + r11 * r11 + r21 * r21 - 1 = 0" .
  have "r02 * r02 + r12 * r12 + r22 * r22 - 1 =
      - (r02 * (r10 * r21 - r11 * r20 - r02) + r12 * (r20 * r01 - r21 * r00 - r12) + r22 * (r00 * r11 - r01 * r10 - r22)) + (r00 * (r11 * r22 - r12 * r21) - r01 * (r10 * r22 - r12 * r20) + r02 * (r10 * r21 - r11 * r20) - 1)"
    by (simp add: algebra_simps)
  also have "\<dots> = 0"
    by (simp only: D F02 F12 F22; simp)
  finally show "r02 * r02 + r12 * r12 + r22 * r22 - 1 = 0" .
  have "r00 * r01 + r10 * r11 + r20 * r21 =
      - (r00 * (r12 * r20 - r10 * r22 - r01) + r10 * (r22 * r00 - r20 * r02 - r11) + r20 * (r02 * r10 - r00 * r12 - r21))"
    by (simp add: algebra_simps)
  also have "\<dots> = 0"
    by (simp only: D F01 F11 F21; simp)
  finally show "r00 * r01 + r10 * r11 + r20 * r21 = 0" .
  have "r00 * r02 + r10 * r12 + r20 * r22 =
      - (r00 * (r10 * r21 - r11 * r20 - r02) + r10 * (r20 * r01 - r21 * r00 - r12) + r20 * (r00 * r11 - r01 * r10 - r22))"
    by (simp add: algebra_simps)
  also have "\<dots> = 0"
    by (simp only: D F02 F12 F22; simp)
  finally show "r00 * r02 + r10 * r12 + r20 * r22 = 0" .
  have "r01 * r02 + r11 * r12 + r21 * r22 =
      - (r01 * (r10 * r21 - r11 * r20 - r02) + r11 * (r20 * r01 - r21 * r00 - r12) + r21 * (r00 * r11 - r01 * r10 - r22))"
    by (simp add: algebra_simps)
  also have "\<dots> = 0"
    by (simp only: D F02 F12 F22; simp)
  finally show "r01 * r02 + r11 * r12 + r21 * r22 = 0" .
qed

lemma rotation_minors:
  fixes r00 r01 r02 r10 r11 r12 r20 r21 r22 :: real
  assumes N0: "r00 * r00 + r01 * r01 + r02 * r02 - 1 = 0"
    and N1: "r10 * r10 + r11 * r11 + r12 * r12 - 1 = 0"
    and N2: "r20 * r20 + r21 * r21 + r22 * r22 - 1 = 0"
    and O01: "r00 * r10 + r01 * r11 + r02 * r12 = 0"
    and O02: "r00 * r20 + r01 * r21 + r02 * r22 = 0"
    and O12: "r10 * r20 + r11 * r21 + r12 * r22 = 0"
    and C0: "r00 * r00 + r10 * r10 + r20 * r20 - 1 = 0"
    and C1: "r01 * r01 + r11 * r11 + r21 * r21 - 1 = 0"
    and C2: "r02 * r02 + r12 * r12 + r22 * r22 - 1 = 0"
    and P01: "r00 * r01 + r10 * r11 + r20 * r21 = 0"
    and P02: "r00 * r02 + r10 * r12 + r20 * r22 = 0"
    and P12: "r01 * r02 + r11 * r12 + r21 * r22 = 0"
    and F00: "r11 * r22 - r12 * r21 - r00 = 0"
    and F01: "r12 * r20 - r10 * r22 - r01 = 0"
    and F02: "r10 * r21 - r11 * r20 - r02 = 0"
    and F10: "r21 * r02 - r22 * r01 - r10 = 0"
    and F11: "r22 * r00 - r20 * r02 - r11 = 0"
    and F12: "r20 * r01 - r21 * r00 - r12 = 0"
    and F20: "r01 * r12 - r02 * r11 - r20 = 0"
    and F21: "r02 * r10 - r00 * r12 - r21 = 0"
    and F22: "r00 * r11 - r01 * r10 - r22 = 0"
  shows M011: "(r21 - r12) * (r21 - r12) = (1 + r00 + r11 + r22) * (1 + r00 - r11 - r22)"
    and M012: "(r21 - r12) * (r02 - r20) = (1 + r00 + r11 + r22) * (r01 + r10)"
    and M013: "(r21 - r12) * (r10 - r01) = (1 + r00 + r11 + r22) * (r02 + r20)"
    and M022: "(r02 - r20) * (r02 - r20) = (1 + r00 + r11 + r22) * (1 + r11 - r00 - r22)"
    and M023: "(r02 - r20) * (r10 - r01) = (1 + r00 + r11 + r22) * (r12 + r21)"
    and M033: "(r10 - r01) * (r10 - r01) = (1 + r00 + r11 + r22) * (1 + r22 - r00 - r11)"
    and M100: "(r21 - r12) * (r21 - r12) = (1 + r00 - r11 - r22) * (1 + r00 + r11 + r22)"
    and M102: "(r21 - r12) * (r01 + r10) = (1 + r00 - r11 - r22) * (r02 - r20)"
    and M103: "(r21 - r12) * (r02 + r20) = (1 + r00 - r11 - r22) * (r10 - r01)"
    and M122: "(r01 + r10) * (r01 + r10) = (1 + r00 - r11 - r22) * (1 + r11 - r00 - r22)"
    and M123: "(r01 + r10) * (r02 + r20) = (1 + r00 - r11 - r22) * (r12 + r21)"
    and M133: "(r02 + r20) * (r02 + r20) = (1 + r00 - r11 - r22) * (1 + r22 - r00 - r11)"
    and M200: "(r02 - r20) * (r02 - r20) = (1 + r11 - r00 - r22) * (1 + r00 + r11 + r22)"
    and M201: "(r02 - r20) * (r01 + r10) = (1 + r11 - r00 - r22) * (r21 - r12)"
    and M203: "(r02 - r20) * (r12 + r21) = (1 + r11 - r00 - r22) * (r10 - r01)"
    and M211: "(r01 + r10) * (r01 + r10) = (1 + r11 - r00 - r22) * (1 + r00 - r11 - r22)"
    and M213: "(r01 + r10) * (r12 + r21) = (1 + r11 - r00 - r22) * (r02 + r20)"
    and M233: "(r12 + r21) * (r12 + r21) = (1 + r11 - r00 - r22) * (1 + r22 - r00 - r11)"
    and M300: "(r10 - r01) * (r10 - r01) = (1 + r22 - r00 - r11) * (1 + r00 + r11 + r22)"
    and M301: "(r10 - r01) * (r02 + r20) = (1 + r22 - r00 - r11) * (r21 - r12)"
    and M302: "(r10 - r01) * (r12 + r21) = (1 + r22 - r00 - r11) * (r02 - r20)"
    and M311: "(r02 + r20) * (r02 + r20) = (1 + r22 - r00 - r11) * (1 + r00 - r11 - r22)"
    and M312: "(r02 + r20) * (r12 + r21) = (1 + r22 - r00 - r11) * (r01 + r10)"
    and M322: "(r12 + r21) * (r12 + r21) = (1 + r22 - r00 - r11) * (1 + r11 - r00 - r22)"
proof -
  have "(r21 - r12) * (r21 - r12) - (1 + r00 + r11 + r22) * (1 + r00 - r11 - r22) =
      0 - (r00 * r00 + r01 * r01 + r02 * r02 - 1) + (r01 * r01 + r11 * r11 + r21 * r21 - 1) + (r02 * r02 + r12 * r12 + r22 * r22 - 1) + 2 * (r11 * r22 - r12 * r21 - r00)"
    by (simp add: algebra_simps)
  also have "\<dots> = 0"
    by (simp only: N0 C1 C2 F00; simp)
  finally show "(r21 - r12) * (r21 - r12) = (1 + r00 + r11 + r22) * (1 + r00 - r11 - r22)"
    by simp
  have "(r21 - r12) * (r02 - r20) - (1 + r00 + r11 + r22) * (r01 + r10) =
      0 - (r00 * r10 + r01 * r11 + r02 * r12) - (r00 * r01 + r10 * r11 + r20 * r21) + (r12 * r20 - r10 * r22 - r01) + (r21 * r02 - r22 * r01 - r10)"
    by (simp add: algebra_simps)
  also have "\<dots> = 0"
    by (simp only: O01 P01 F01 F10; simp)
  finally show "(r21 - r12) * (r02 - r20) = (1 + r00 + r11 + r22) * (r01 + r10)"
    by simp
  have "(r21 - r12) * (r10 - r01) - (1 + r00 + r11 + r22) * (r02 + r20) =
      0 - (r00 * r20 + r01 * r21 + r02 * r22) - (r00 * r02 + r10 * r12 + r20 * r22) + (r10 * r21 - r11 * r20 - r02) + (r01 * r12 - r02 * r11 - r20)"
    by (simp add: algebra_simps)
  also have "\<dots> = 0"
    by (simp only: O02 P02 F02 F20; simp)
  finally show "(r21 - r12) * (r10 - r01) = (1 + r00 + r11 + r22) * (r02 + r20)"
    by simp
  have "(r02 - r20) * (r02 - r20) - (1 + r00 + r11 + r22) * (1 + r11 - r00 - r22) =
      0 + (r00 * r00 + r01 * r01 + r02 * r02 - 1) + (r20 * r20 + r21 * r21 + r22 * r22 - 1) - (r01 * r01 + r11 * r11 + r21 * r21 - 1) + 2 * (r22 * r00 - r20 * r02 - r11)"
    by (simp add: algebra_simps)
  also have "\<dots> = 0"
    by (simp only: N0 N2 C1 F11; simp)
  finally show "(r02 - r20) * (r02 - r20) = (1 + r00 + r11 + r22) * (1 + r11 - r00 - r22)"
    by simp
  have "(r02 - r20) * (r10 - r01) - (1 + r00 + r11 + r22) * (r12 + r21) =
      0 - (r10 * r20 + r11 * r21 + r12 * r22) - (r01 * r02 + r11 * r12 + r21 * r22) + (r20 * r01 - r21 * r00 - r12) + (r02 * r10 - r00 * r12 - r21)"
    by (simp add: algebra_simps)
  also have "\<dots> = 0"
    by (simp only: O12 P12 F12 F21; simp)
  finally show "(r02 - r20) * (r10 - r01) = (1 + r00 + r11 + r22) * (r12 + r21)"
    by simp
  have "(r10 - r01) * (r10 - r01) - (1 + r00 + r11 + r22) * (1 + r22 - r00 - r11) =
      0 + (r00 * r00 + r01 * r01 + r02 * r02 - 1) + (r10 * r10 + r11 * r11 + r12 * r12 - 1) - (r02 * r02 + r12 * r12 + r22 * r22 - 1) + 2 * (r00 * r11 - r01 * r10 - r22)"
    by (simp add: algebra_simps)
  also have "\<dots> = 0"
    by (simp only: N0 N1 C2 F22; simp)
  finally show "(r10 - r01) * (r10 - r01) = (1 + r00 + r11 + r22) * (1 + r22 - r00 - r11)"
    by simp
  have "(r21 - r12) * (r21 - r12) - (1 + r00 - r11 - r22) * (1 + r00 + r11 + r22) =
      0 - (r00 * r00 + r01 * r01 + r02 * r02 - 1) + (r01 * r01 + r11 * r11 + r21 * r21 - 1) + (r02 * r02 + r12 * r12 + r22 * r22 - 1) + 2 * (r11 * r22 - r12 * r21 - r00)"
    by (simp add: algebra_simps)
  also have "\<dots> = 0"
    by (simp only: N0 C1 C2 F00; simp)
  finally show "(r21 - r12) * (r21 - r12) = (1 + r00 - r11 - r22) * (1 + r00 + r11 + r22)"
    by simp
  have "(r21 - r12) * (r01 + r10) - (1 + r00 - r11 - r22) * (r02 - r20) =
      0 + (r00 * r20 + r01 * r21 + r02 * r22) - (r00 * r02 + r10 * r12 + r20 * r22) + (r10 * r21 - r11 * r20 - r02) - (r01 * r12 - r02 * r11 - r20)"
    by (simp add: algebra_simps)
  also have "\<dots> = 0"
    by (simp only: O02 P02 F02 F20; simp)
  finally show "(r21 - r12) * (r01 + r10) = (1 + r00 - r11 - r22) * (r02 - r20)"
    by simp
  have "(r21 - r12) * (r02 + r20) - (1 + r00 - r11 - r22) * (r10 - r01) =
      0 - (r00 * r10 + r01 * r11 + r02 * r12) + (r00 * r01 + r10 * r11 + r20 * r21) - (r12 * r20 - r10 * r22 - r01) + (r21 * r02 - r22 * r01 - r10)"
    by (simp add: algebra_simps)
  also have "\<dots> = 0"
    by (simp only: O01 P01 F01 F10; simp)
  finally show "(r21 - r12) * (r02 + r20) = (1 + r00 - r11 - r22) * (r10 - r01)"
    by simp
  have "(r01 + r10) * (r01 + r10) - (1 + r00 - r11 - r22) * (1 + r11 - r00 - r22) =
      0 + (r00 * r00 + r01 * r01 + r02 * r02 - 1) + (r10 * r10 + r11 * r11 + r12 * r12 - 1) - (r02 * r02 + r12 * r12 + r22 * r22 - 1) - 2 * (r00 * r11 - r01 * r10 - r22)"
    by (simp add: algebra_simps)
  also have "\<dots> = 0"
    by (simp only: N0 N1 C2 F22; simp)
  finally show "(r01 + r10) * (r01 + r10) = (1 + r00 - r11 - r22) * (1 + r11 - r00 - r22)"
    by simp
  have "(r01 + r10) * (r02 + r20) - (1 + r00 - r11 - r22) * (r12 + r21) =
      0 + (r10 * r20 + r11 * r21 + r12 * r22) + (r01 * r02 + r11 * r12 + r21 * r22) + (r20 * r01 - r21 * r00 - r12) + (r02 * r10 - r00 * r12 - r21)"
    by (simp add: algebra_simps)
  also have "\<dots> = 0"
    by (simp only: O12 P12 F12 F21; simp)
  finally show "(r01 + r10) * (r02 + r20) = (1 + r00 - r11 - r22) * (r12 + r21)"
    by simp
  have "(r02 + r20) * (r02 + r20) - (1 + r00 - r11 - r22) * (1 + r22 - r00 - r11) =
      0 + (r00 * r00 + r01 * r01 + r02 * r02 - 1) + (r20 * r20 + r21 * r21 + r22 * r22 - 1) - (r01 * r01 + r11 * r11 + r21 * r21 - 1) - 2 * (r22 * r00 - r20 * r02 - r11)"
    by (simp add: algebra_simps)
  also have "\<dots> = 0"
    by (simp only: N0 N2 C1 F11; simp)
  finally show "(r02 + r20) * (r02 + r20) = (1 + r00 - r11 - r22) * (1 + r22 - r00 - r11)"
    by simp
  have "(r02 - r20) * (r02 - r20) - (1 + r11 - r00 - r22) * (1 + r00 + r11 + r22) =
      0 + (r00 * r00 + r01 * r01 + r02 * r02 - 1) + (r20 * r20 + r21 * r21 + r22 * r22 - 1) - (r01 * r01 + r11 * r11 + r21 * r21 - 1) + 2 * (r22 * r00 - r20 * r02 - r11)"
    by (simp add: algebra_simps)
  also have "\<dots> = 0"
    by (simp only: N0 N2 C1 F11; simp)
  finally show "(r02 - r20) * (r02 - r20) = (1 + r11 - r00 - r22) * (1 + r00 + r11 + r22)"
    by simp
  have "(r02 - r20) * (r01 + r10) - (1 + r11 - r00 - r22) * (r21 - r12) =
      0 - (r10 * r20 + r11 * r21 + r12 * r22) + (r01 * r02 + r11 * r12 + r21 * r22) - (r20 * r01 - r21 * r00 - r12) + (r02 * r10 - r00 * r12 - r21)"
    by (simp add: algebra_simps)
  also have "\<dots> = 0"
    by (simp only: O12 P12 F12 F21; simp)
  finally show "(r02 - r20) * (r01 + r10) = (1 + r11 - r00 - r22) * (r21 - r12)"
    by simp
  have "(r02 - r20) * (r12 + r21) - (1 + r11 - r00 - r22) * (r10 - r01) =
      0 + (r00 * r10 + r01 * r11 + r02 * r12) - (r00 * r01 + r10 * r11 + r20 * r21) - (r12 * r20 - r10 * r22 - r01) + (r21 * r02 - r22 * r01 - r10)"
    by (simp add: algebra_simps)
  also have "\<dots> = 0"
    by (simp only: O01 P01 F01 F10; simp)
  finally show "(r02 - r20) * (r12 + r21) = (1 + r11 - r00 - r22) * (r10 - r01)"
    by simp
  have "(r01 + r10) * (r01 + r10) - (1 + r11 - r00 - r22) * (1 + r00 - r11 - r22) =
      0 + (r00 * r00 + r01 * r01 + r02 * r02 - 1) + (r10 * r10 + r11 * r11 + r12 * r12 - 1) - (r02 * r02 + r12 * r12 + r22 * r22 - 1) - 2 * (r00 * r11 - r01 * r10 - r22)"
    by (simp add: algebra_simps)
  also have "\<dots> = 0"
    by (simp only: N0 N1 C2 F22; simp)
  finally show "(r01 + r10) * (r01 + r10) = (1 + r11 - r00 - r22) * (1 + r00 - r11 - r22)"
    by simp
  have "(r01 + r10) * (r12 + r21) - (1 + r11 - r00 - r22) * (r02 + r20) =
      0 + (r00 * r20 + r01 * r21 + r02 * r22) + (r00 * r02 + r10 * r12 + r20 * r22) + (r10 * r21 - r11 * r20 - r02) + (r01 * r12 - r02 * r11 - r20)"
    by (simp add: algebra_simps)
  also have "\<dots> = 0"
    by (simp only: O02 P02 F02 F20; simp)
  finally show "(r01 + r10) * (r12 + r21) = (1 + r11 - r00 - r22) * (r02 + r20)"
    by simp
  have "(r12 + r21) * (r12 + r21) - (1 + r11 - r00 - r22) * (1 + r22 - r00 - r11) =
      0 - (r00 * r00 + r01 * r01 + r02 * r02 - 1) + (r01 * r01 + r11 * r11 + r21 * r21 - 1) + (r02 * r02 + r12 * r12 + r22 * r22 - 1) - 2 * (r11 * r22 - r12 * r21 - r00)"
    by (simp add: algebra_simps)
  also have "\<dots> = 0"
    by (simp only: N0 C1 C2 F00; simp)
  finally show "(r12 + r21) * (r12 + r21) = (1 + r11 - r00 - r22) * (1 + r22 - r00 - r11)"
    by simp
  have "(r10 - r01) * (r10 - r01) - (1 + r22 - r00 - r11) * (1 + r00 + r11 + r22) =
      0 + (r00 * r00 + r01 * r01 + r02 * r02 - 1) + (r10 * r10 + r11 * r11 + r12 * r12 - 1) - (r02 * r02 + r12 * r12 + r22 * r22 - 1) + 2 * (r00 * r11 - r01 * r10 - r22)"
    by (simp add: algebra_simps)
  also have "\<dots> = 0"
    by (simp only: N0 N1 C2 F22; simp)
  finally show "(r10 - r01) * (r10 - r01) = (1 + r22 - r00 - r11) * (1 + r00 + r11 + r22)"
    by simp
  have "(r10 - r01) * (r02 + r20) - (1 + r22 - r00 - r11) * (r21 - r12) =
      0 + (r10 * r20 + r11 * r21 + r12 * r22) - (r01 * r02 + r11 * r12 + r21 * r22) - (r20 * r01 - r21 * r00 - r12) + (r02 * r10 - r00 * r12 - r21)"
    by (simp add: algebra_simps)
  also have "\<dots> = 0"
    by (simp only: O12 P12 F12 F21; simp)
  finally show "(r10 - r01) * (r02 + r20) = (1 + r22 - r00 - r11) * (r21 - r12)"
    by simp
  have "(r10 - r01) * (r12 + r21) - (1 + r22 - r00 - r11) * (r02 - r20) =
      0 - (r00 * r20 + r01 * r21 + r02 * r22) + (r00 * r02 + r10 * r12 + r20 * r22) + (r10 * r21 - r11 * r20 - r02) - (r01 * r12 - r02 * r11 - r20)"
    by (simp add: algebra_simps)
  also have "\<dots> = 0"
    by (simp only: O02 P02 F02 F20; simp)
  finally show "(r10 - r01) * (r12 + r21) = (1 + r22 - r00 - r11) * (r02 - r20)"
    by simp
  have "(r02 + r20) * (r02 + r20) - (1 + r22 - r00 - r11) * (1 + r00 - r11 - r22) =
      0 + (r00 * r00 + r01 * r01 + r02 * r02 - 1) + (r20 * r20 + r21 * r21 + r22 * r22 - 1) - (r01 * r01 + r11 * r11 + r21 * r21 - 1) - 2 * (r22 * r00 - r20 * r02 - r11)"
    by (simp add: algebra_simps)
  also have "\<dots> = 0"
    by (simp only: N0 N2 C1 F11; simp)
  finally show "(r02 + r20) * (r02 + r20) = (1 + r22 - r00 - r11) * (1 + r00 - r11 - r22)"
    by simp
  have "(r02 + r20) * (r12 + r21) - (1 + r22 - r00 - r11) * (r01 + r10) =
      0 + (r00 * r10 + r01 * r11 + r02 * r12) + (r00 * r01 + r10 * r11 + r20 * r21) + (r12 * r20 - r10 * r22 - r01) + (r21 * r02 - r22 * r01 - r10)"
    by (simp add: algebra_simps)
  also have "\<dots> = 0"
    by (simp only: O01 P01 F01 F10; simp)
  finally show "(r02 + r20) * (r12 + r21) = (1 + r22 - r00 - r11) * (r01 + r10)"
    by simp
  have "(r12 + r21) * (r12 + r21) - (1 + r22 - r00 - r11) * (1 + r11 - r00 - r22) =
      0 - (r00 * r00 + r01 * r01 + r02 * r02 - 1) + (r01 * r01 + r11 * r11 + r21 * r21 - 1) + (r02 * r02 + r12 * r12 + r22 * r22 - 1) - 2 * (r11 * r22 - r12 * r21 - r00)"
    by (simp add: algebra_simps)
  also have "\<dots> = 0"
    by (simp only: N0 C1 C2 F00; simp)
  finally show "(r12 + r21) * (r12 + r21) = (1 + r22 - r00 - r11) * (1 + r11 - r00 - r22)"
    by simp
qed

lemma rotation_minors_of_proper:
  fixes r00 r01 r02 r10 r11 r12 r20 r21 r22 :: real
  assumes "proper_rotation ((r00, r01, r02), (r10, r11, r12), (r20, r21, r22))"
  shows "(r21 - r12) * (r21 - r12) = (1 + r00 + r11 + r22) * (1 + r00 - r11 - r22)"
    and "(r21 - r12) * (r02 - r20) = (1 + r00 + r11 + r22) * (r01 + r10)"
    and "(r21 - r12) * (r10 - r01) = (1 + r00 + r11 + r22) * (r02 + r20)"
    and "(r02 - r20) * (r02 - r20) = (1 + r00 + r11 + r22) * (1 + r11 - r00 - r22)"
    and "(r02 - r20) * (r10 - r01) = (1 + r00 + r11 + r22) * (r12 + r21)"
    and "(r10 - r01) * (r10 - r01) = (1 + r00 + r11 + r22) * (1 + r22 - r00 - r11)"
    and "(r21 - r12) * (r21 - r12) = (1 + r00 - r11 - r22) * (1 + r00 + r11 + r22)"
    and "(r21 - r12) * (r01 + r10) = (1 + r00 - r11 - r22) * (r02 - r20)"
    and "(r21 - r12) * (r02 + r20) = (1 + r00 - r11 - r22) * (r10 - r01)"
    and "(r01 + r10) * (r01 + r10) = (1 + r00 - r11 - r22) * (1 + r11 - r00 - r22)"
    and "(r01 + r10) * (r02 + r20) = (1 + r00 - r11 - r22) * (r12 + r21)"
    and "(r02 + r20) * (r02 + r20) = (1 + r00 - r11 - r22) * (1 + r22 - r00 - r11)"
    and "(r02 - r20) * (r02 - r20) = (1 + r11 - r00 - r22) * (1 + r00 + r11 + r22)"
    and "(r02 - r20) * (r01 + r10) = (1 + r11 - r00 - r22) * (r21 - r12)"
    and "(r02 - r20) * (r12 + r21) = (1 + r11 - r00 - r22) * (r10 - r01)"
    and "(r01 + r10) * (r01 + r10) = (1 + r11 - r00 - r22) * (1 + r00 - r11 - r22)"
    and "(r01 + r10) * (r12 + r21) = (1 + r11 - r00 - r22) * (r02 + r20)"
    and "(r12 + r21) * (r12 + r21) = (1 + r11 - r00 - r22) * (1 + r22 - r00 - r11)"
    and "(r10 - r01) * (r10 - r01) = (1 + r22 - r00 - r11) * (1 + r00 + r11 + r22)"
    and "(r10 - r01) * (r02 + r20) = (1 + r22 - r00 - r11) * (r21 - r12)"
    and "(r10 - r01) * (r12 + r21) = (1 + r22 - r00 - r11) * (r02 - r20)"
    and "(r02 + r20) * (r02 + r20) = (1 + r22 - r00 - r11) * (1 + r00 - r11 - r22)"
    and "(r02 + r20) * (r12 + r21) = (1 + r22 - r00 - r11) * (r01 + r10)"
    and "(r12 + r21) * (r12 + r21) = (1 + r22 - r00 - r11) * (1 + r11 - r00 - r22)"
proof -
  note rows = proper_rotation_rows [OF assms]
  note cofs = rotation_cofactors [OF rows]
  note cols = rotation_columns [OF rows(7) cofs]
  note ms = rotation_minors [OF rows(1-6) cols cofs]
  show "(r21 - r12) * (r21 - r12) = (1 + r00 + r11 + r22) * (1 + r00 - r11 - r22)"
    by (rule ms(1))
  show "(r21 - r12) * (r02 - r20) = (1 + r00 + r11 + r22) * (r01 + r10)"
    by (rule ms(2))
  show "(r21 - r12) * (r10 - r01) = (1 + r00 + r11 + r22) * (r02 + r20)"
    by (rule ms(3))
  show "(r02 - r20) * (r02 - r20) = (1 + r00 + r11 + r22) * (1 + r11 - r00 - r22)"
    by (rule ms(4))
  show "(r02 - r20) * (r10 - r01) = (1 + r00 + r11 + r22) * (r12 + r21)"
    by (rule ms(5))
  show "(r10 - r01) * (r10 - r01) = (1 + r00 + r11 + r22) * (1 + r22 - r00 - r11)"
    by (rule ms(6))
  show "(r21 - r12) * (r21 - r12) = (1 + r00 - r11 - r22) * (1 + r00 + r11 + r22)"
    by (rule ms(7))
  show "(r21 - r12) * (r01 + r10) = (1 + r00 - r11 - r22) * (r02 - r20)"
    by (rule ms(8))
  show "(r21 - r12) * (r02 + r20) = (1 + r00 - r11 - r22) * (r10 - r01)"
    by (rule ms(9))
  show "(r01 + r10) * (r01 + r10) = (1 + r00 - r11 - r22) * (1 + r11 - r00 - r22)"
    by (rule ms(10))
  show "(r01 + r10) * (r02 + r20) = (1 + r00 - r11 - r22) * (r12 + r21)"
    by (rule ms(11))
  show "(r02 + r20) * (r02 + r20) = (1 + r00 - r11 - r22) * (1 + r22 - r00 - r11)"
    by (rule ms(12))
  show "(r02 - r20) * (r02 - r20) = (1 + r11 - r00 - r22) * (1 + r00 + r11 + r22)"
    by (rule ms(13))
  show "(r02 - r20) * (r01 + r10) = (1 + r11 - r00 - r22) * (r21 - r12)"
    by (rule ms(14))
  show "(r02 - r20) * (r12 + r21) = (1 + r11 - r00 - r22) * (r10 - r01)"
    by (rule ms(15))
  show "(r01 + r10) * (r01 + r10) = (1 + r11 - r00 - r22) * (1 + r00 - r11 - r22)"
    by (rule ms(16))
  show "(r01 + r10) * (r12 + r21) = (1 + r11 - r00 - r22) * (r02 + r20)"
    by (rule ms(17))
  show "(r12 + r21) * (r12 + r21) = (1 + r11 - r00 - r22) * (1 + r22 - r00 - r11)"
    by (rule ms(18))
  show "(r10 - r01) * (r10 - r01) = (1 + r22 - r00 - r11) * (1 + r00 + r11 + r22)"
    by (rule ms(19))
  show "(r10 - r01) * (r02 + r20) = (1 + r22 - r00 - r11) * (r21 - r12)"
    by (rule ms(20))
  show "(r10 - r01) * (r12 + r21) = (1 + r22 - r00 - r11) * (r02 - r20)"
    by (rule ms(21))
  show "(r02 + r20) * (r02 + r20) = (1 + r22 - r00 - r11) * (1 + r00 - r11 - r22)"
    by (rule ms(22))
  show "(r02 + r20) * (r12 + r21) = (1 + r22 - r00 - r11) * (r01 + r10)"
    by (rule ms(23))
  show "(r12 + r21) * (r12 + r21) = (1 + r22 - r00 - r11) * (1 + r11 - r00 - r22)"
    by (rule ms(24))
qed

lemma pivot_products:
  fixes s k a b c :: real
  assumes k: "0 < k" and s: "s = 2 * sqrt k"
  shows "a * b = k * c \<Longrightarrow> (a / s) * (b / s) = c / 4"
    and "(s / 4) * (a / s) = a / 4"
    and "(a / s) * (s / 4) = a / 4"
    and "(s / 4) * (s / 4) = k / 4"
proof -
  have ss: "s * s = 4 * k"
    using k s by simp
  have s0: "s \<noteq> 0"
    using k s by simp
  show "(s / 4) * (a / s) = a / 4" and "(a / s) * (s / 4) = a / 4"
    using s0 by simp_all
  show "(s / 4) * (s / 4) = k / 4"
    using ss by simp
  show "(a / s) * (b / s) = c / 4" if ab: "a * b = k * c"
  proof -
    have "(a / s) * (b / s) = (a * b) / (s * s)"
      by simp
    also have "\<dots> = (k * c) / (4 * k)"
      by (simp only: ab ss)
    also have "\<dots> = c / 4"
      using k by simp
    finally show ?thesis .
  qed
qed

lemma matrixFromQuat_of_products:
  fixes w qx qy qz :: real
  assumes "qx * qx = (1 + r00 - r11 - r22) / 4"
    and "qy * qy = (1 + r11 - r00 - r22) / 4"
    and "qz * qz = (1 + r22 - r00 - r11) / 4"
    and "w * qx = (r21 - r12) / 4"
    and "w * qy = (r02 - r20) / 4"
    and "w * qz = (r10 - r01) / 4"
    and "qx * qy = (r01 + r10) / 4"
    and "qx * qz = (r02 + r20) / 4"
    and "qy * qz = (r12 + r21) / 4"
  shows "example_matrixFromQuat (w, qx, qy, qz) = ((r00, r01, r02), (r10, r11, r12), (r20, r21, r22))"
  unfolding example_matrixFromQuat.simps assms by (simp add: field_simps)

lemma pivot0_quaternion:
  fixes r00 r01 r02 r10 r11 r12 r20 r21 r22 s :: real
  assumes R: "proper_rotation ((r00, r01, r02), (r10, r11, r12), (r20, r21, r22))"
    and k: "0 < 1 + r00 + r11 + r22"
    and s: "s = 2 * sqrt (1 + r00 + r11 + r22)"
  shows "example_matrixFromQuat (s / 4, (r21 - r12) / s, (r02 - r20) / s, (r10 - r01) / s) = ((r00, r01, r02), (r10, r11, r12), (r20, r21, r22))"
proof (rule matrixFromQuat_of_products)
  note ms = rotation_minors_of_proper [OF R]
  show "((r21 - r12) / s) * ((r21 - r12) / s) = (1 + r00 - r11 - r22) / 4"
    by (rule pivot_products(1) [OF k s ms(1)])
  show "((r02 - r20) / s) * ((r02 - r20) / s) = (1 + r11 - r00 - r22) / 4"
    by (rule pivot_products(1) [OF k s ms(4)])
  show "((r10 - r01) / s) * ((r10 - r01) / s) = (1 + r22 - r00 - r11) / 4"
    by (rule pivot_products(1) [OF k s ms(6)])
  show "(s / 4) * ((r21 - r12) / s) = (r21 - r12) / 4"
    by (rule pivot_products(2) [OF k s])
  show "(s / 4) * ((r02 - r20) / s) = (r02 - r20) / 4"
    by (rule pivot_products(2) [OF k s])
  show "(s / 4) * ((r10 - r01) / s) = (r10 - r01) / 4"
    by (rule pivot_products(2) [OF k s])
  show "((r21 - r12) / s) * ((r02 - r20) / s) = (r01 + r10) / 4"
    by (rule pivot_products(1) [OF k s ms(2)])
  show "((r21 - r12) / s) * ((r10 - r01) / s) = (r02 + r20) / 4"
    by (rule pivot_products(1) [OF k s ms(3)])
  show "((r02 - r20) / s) * ((r10 - r01) / s) = (r12 + r21) / 4"
    by (rule pivot_products(1) [OF k s ms(5)])
qed

lemma pivot1_quaternion:
  fixes r00 r01 r02 r10 r11 r12 r20 r21 r22 s :: real
  assumes R: "proper_rotation ((r00, r01, r02), (r10, r11, r12), (r20, r21, r22))"
    and k: "0 < 1 + r00 - r11 - r22"
    and s: "s = 2 * sqrt (1 + r00 - r11 - r22)"
  shows "example_matrixFromQuat ((r21 - r12) / s, s / 4, (r01 + r10) / s, (r02 + r20) / s) = ((r00, r01, r02), (r10, r11, r12), (r20, r21, r22))"
proof (rule matrixFromQuat_of_products)
  note ms = rotation_minors_of_proper [OF R]
  show "(s / 4) * (s / 4) = (1 + r00 - r11 - r22) / 4"
    by (rule pivot_products(4) [OF k s])
  show "((r01 + r10) / s) * ((r01 + r10) / s) = (1 + r11 - r00 - r22) / 4"
    by (rule pivot_products(1) [OF k s ms(10)])
  show "((r02 + r20) / s) * ((r02 + r20) / s) = (1 + r22 - r00 - r11) / 4"
    by (rule pivot_products(1) [OF k s ms(12)])
  show "((r21 - r12) / s) * (s / 4) = (r21 - r12) / 4"
    by (rule pivot_products(3) [OF k s])
  show "((r21 - r12) / s) * ((r01 + r10) / s) = (r02 - r20) / 4"
    by (rule pivot_products(1) [OF k s ms(8)])
  show "((r21 - r12) / s) * ((r02 + r20) / s) = (r10 - r01) / 4"
    by (rule pivot_products(1) [OF k s ms(9)])
  show "(s / 4) * ((r01 + r10) / s) = (r01 + r10) / 4"
    by (rule pivot_products(2) [OF k s])
  show "(s / 4) * ((r02 + r20) / s) = (r02 + r20) / 4"
    by (rule pivot_products(2) [OF k s])
  show "((r01 + r10) / s) * ((r02 + r20) / s) = (r12 + r21) / 4"
    by (rule pivot_products(1) [OF k s ms(11)])
qed

lemma pivot2_quaternion:
  fixes r00 r01 r02 r10 r11 r12 r20 r21 r22 s :: real
  assumes R: "proper_rotation ((r00, r01, r02), (r10, r11, r12), (r20, r21, r22))"
    and k: "0 < 1 + r11 - r00 - r22"
    and s: "s = 2 * sqrt (1 + r11 - r00 - r22)"
  shows "example_matrixFromQuat ((r02 - r20) / s, (r01 + r10) / s, s / 4, (r12 + r21) / s) = ((r00, r01, r02), (r10, r11, r12), (r20, r21, r22))"
proof (rule matrixFromQuat_of_products)
  note ms = rotation_minors_of_proper [OF R]
  show "((r01 + r10) / s) * ((r01 + r10) / s) = (1 + r00 - r11 - r22) / 4"
    by (rule pivot_products(1) [OF k s ms(16)])
  show "(s / 4) * (s / 4) = (1 + r11 - r00 - r22) / 4"
    by (rule pivot_products(4) [OF k s])
  show "((r12 + r21) / s) * ((r12 + r21) / s) = (1 + r22 - r00 - r11) / 4"
    by (rule pivot_products(1) [OF k s ms(18)])
  show "((r02 - r20) / s) * ((r01 + r10) / s) = (r21 - r12) / 4"
    by (rule pivot_products(1) [OF k s ms(14)])
  show "((r02 - r20) / s) * (s / 4) = (r02 - r20) / 4"
    by (rule pivot_products(3) [OF k s])
  show "((r02 - r20) / s) * ((r12 + r21) / s) = (r10 - r01) / 4"
    by (rule pivot_products(1) [OF k s ms(15)])
  show "((r01 + r10) / s) * (s / 4) = (r01 + r10) / 4"
    by (rule pivot_products(3) [OF k s])
  show "((r01 + r10) / s) * ((r12 + r21) / s) = (r02 + r20) / 4"
    by (rule pivot_products(1) [OF k s ms(17)])
  show "(s / 4) * ((r12 + r21) / s) = (r12 + r21) / 4"
    by (rule pivot_products(2) [OF k s])
qed

lemma pivot3_quaternion:
  fixes r00 r01 r02 r10 r11 r12 r20 r21 r22 s :: real
  assumes R: "proper_rotation ((r00, r01, r02), (r10, r11, r12), (r20, r21, r22))"
    and k: "0 < 1 + r22 - r00 - r11"
    and s: "s = 2 * sqrt (1 + r22 - r00 - r11)"
  shows "example_matrixFromQuat ((r10 - r01) / s, (r02 + r20) / s, (r12 + r21) / s, s / 4) = ((r00, r01, r02), (r10, r11, r12), (r20, r21, r22))"
proof (rule matrixFromQuat_of_products)
  note ms = rotation_minors_of_proper [OF R]
  show "((r02 + r20) / s) * ((r02 + r20) / s) = (1 + r00 - r11 - r22) / 4"
    by (rule pivot_products(1) [OF k s ms(22)])
  show "((r12 + r21) / s) * ((r12 + r21) / s) = (1 + r11 - r00 - r22) / 4"
    by (rule pivot_products(1) [OF k s ms(24)])
  show "(s / 4) * (s / 4) = (1 + r22 - r00 - r11) / 4"
    by (rule pivot_products(4) [OF k s])
  show "((r10 - r01) / s) * ((r02 + r20) / s) = (r21 - r12) / 4"
    by (rule pivot_products(1) [OF k s ms(20)])
  show "((r10 - r01) / s) * ((r12 + r21) / s) = (r02 - r20) / 4"
    by (rule pivot_products(1) [OF k s ms(21)])
  show "((r10 - r01) / s) * (s / 4) = (r10 - r01) / 4"
    by (rule pivot_products(3) [OF k s])
  show "((r02 + r20) / s) * ((r12 + r21) / s) = (r01 + r10) / 4"
    by (rule pivot_products(1) [OF k s ms(23)])
  show "((r02 + r20) / s) * (s / 4) = (r02 + r20) / 4"
    by (rule pivot_products(3) [OF k s])
  show "((r12 + r21) / s) * (s / 4) = (r12 + r21) / 4"
    by (rule pivot_products(3) [OF k s])
qed

lemma complete_quat_roundtrip:
  assumes "proper_rotation R"
  shows "example_matrixFromQuat (complete_quatFromMatrix R) = R"
proof -
  obtain r00 r01 r02 r10 r11 r12 r20 r21 r22
    where R: "R = ((r00, r01, r02), (r10, r11, r12), (r20, r21, r22))"
    by (metis prod_cases3)
  note P = assms [unfolded R]
  consider (trace) "0 < r00 + r11 + r22"
    | (x) "\<not> 0 < r00 + r11 + r22" "r11 < r00 \<and> r22 < r00"
    | (y) "\<not> 0 < r00 + r11 + r22" "\<not> (r11 < r00 \<and> r22 < r00)" "r22 < r11"
    | (z) "\<not> 0 < r00 + r11 + r22" "\<not> (r11 < r00 \<and> r22 < r00)" "\<not> r22 < r11"
    by blast
  then show ?thesis
  proof cases
    case trace
    then have k: "0 < 1 + r00 + r11 + r22"
      by linarith
    show ?thesis
      unfolding R complete_quatFromMatrix.simps Let_def if_P [OF trace]
      by (rule pivot0_quaternion [OF P k refl])
  next
    case x
    then have k: "0 < 1 + r00 - r11 - r22"
      by linarith
    show ?thesis
      unfolding R complete_quatFromMatrix.simps Let_def if_not_P [OF x(1)] if_P [OF x(2)]
      by (rule pivot1_quaternion [OF P k refl])
  next
    case y
    then have k: "0 < 1 + r11 - r00 - r22"
      by linarith
    show ?thesis
      unfolding R complete_quatFromMatrix.simps Let_def if_not_P [OF y(1)] if_not_P [OF y(2)]
        if_P [OF y(3)]
      by (rule pivot2_quaternion [OF P k refl])
  next
    case z
    then have k: "0 < 1 + r22 - r00 - r11"
      by linarith
    show ?thesis
      unfolding R complete_quatFromMatrix.simps Let_def if_not_P [OF z(1)] if_not_P [OF z(2)]
        if_not_P [OF z(3)]
      by (rule pivot3_quaternion [OF P k refl])
  qed
qed

lemma complete_extern_inverse:
  "\<forall>R. proper_rotation R \<longrightarrow>
     matrixFromQuat complete_extern (quatFromMatrix complete_extern R) = R"
  by (simp add: complete_extern_def example_extern_def complete_quat_roundtrip)

lemma complete_extern_sign:
  "\<forall>q. matrixFromQuat complete_extern (neg4 q) = matrixFromQuat complete_extern q"
  by (simp add: complete_extern_def example_extern_def neg4_def split_paired_all)

subsection \<open>From a pose back to the transform\<close>

text \<open>
  Claim C6. Let the transform of a body be rigid: its rotation block is a proper
  rotation (orthonormal, of determinant \<open>1\<close>) and its last row is \<open>(0, 0, 0, 1)\<close>. Let the
  conversions of the engine be as the specification has them: the matrix of the
  quaternion of a proper rotation is that rotation, and the matrix of a quaternion is
  the same for both signs of the quaternion. Then \<^const>\<open>set_pose\<close> of the pose that
  \<^const>\<open>pose\<close> returns, on any body, makes the transform of that body the transform the
  pose was read from, also when \<^const>\<open>pose\<close> has negated the quaternion; on the body
  itself it changes nothing.
\<close>

theorem pose_set_pose_roundtrip:
  assumes "proper_rotation (R_of self)"
    and "bottom_row (T_of self) = (0, 0, 0, 1)"
    and "\<forall>R. proper_rotation R \<longrightarrow> matrixFromQuat E (quatFromMatrix E R) = R"
    and "\<forall>q. matrixFromQuat E (neg4 q) = matrixFromQuat E q"
  shows "set_pose E (pose E self) other = other\<lparr>rave := T_of self\<rparr>
         \<and> T_of (set_pose E (pose E self) other) = T_of self
         \<and> set_pose E (pose E self) self = self"
proof -
  obtain r00 r01 r02 p0 r10 r11 r12 p1 r20 r21 r22 p2 bt
    where T: "rave self = ((r00, r01, r02, p0), (r10, r11, r12, p1), (r20, r21, r22, p2), bt)"
    by (rule mat4_cases)
  obtain w qx qy qz
    where Q: "quatFromMatrix E ((r00, r01, r02), (r10, r11, r12), (r20, r21, r22)) = (w, qx, qy, qz)"
    by (metis prod_cases4)
  have bt: "bt = (0, 0, 0, 1)"
    using assms(2) by (simp add: T_of_def T)
  have "matrixFromQuat E (quatFromMatrix E (R_of self)) = R_of self"
    using assms(3) assms(1) by blast
  then have M: "matrixFromQuat E (w, qx, qy, qz) = ((r00, r01, r02), (r10, r11, r12), (r20, r21, r22))"
    by (simp add: R_of_def T_of_def T Q)
  have N: "matrixFromQuat E (- w, - qx, - qy, - qz) = ((r00, r01, r02), (r10, r11, r12), (r20, r21, r22))"
    using assms(4) [rule_format, of "(w, qx, qy, qz)"] M by (simp add: neg4_def)
  have "matrixFromPose E (pose E self) = rave self"
    by (simp add: pose_def GetTransformPose_def matrixFromPose_def T Q M N bt)
  then show ?thesis
    by (simp add: set_pose_def set_transform_def T_of_def)
qed

text \<open>
  Two instances, with the conversions that are defined on every rotation. The first
  body has a rotation of which the engine returns the quaternion
  \<open>(-1/3, 2/3, 2/3, 0)\<close>, that \<^const>\<open>pose\<close> negates; the second is turned by half a
  turn. In both, the pose is written to a body at the identity transform, which
  becomes the body the pose was read from.
\<close>

lemma sqrt_16_9: "sqrt (16 / 9) = 4 / 3"
  by (rule real_sqrt_unique) (simp_all add: power2_eq_square)

lemma tilted_quaternion:
  "complete_quatFromMatrix ((1 / 9, 8 / 9, - (4 / 9)), (8 / 9, 1 / 9, 4 / 9),
     (4 / 9, - (4 / 9), - (7 / 9))) = (- (1 / 3), 2 / 3, 2 / 3, 0)"
  by (simp add: sqrt_16_9)

theorem tilted_and_half_turn_roundtrip:
  "proper_rotation (R_of tilted_body) \<and> bottom_row (T_of tilted_body) = (0, 0, 0, 1)
   \<and> pose_scalar (GetTransformPose complete_extern (T_of tilted_body)) < 0
   \<and> pose complete_extern tilted_body = (1 / 3, - (2 / 3), - (2 / 3), 0, 1, 2, 3)
   \<and> set_pose complete_extern (pose complete_extern tilted_body) identity_body = tilted_body
   \<and> proper_rotation (R_of half_turn_body) \<and> bottom_row (T_of half_turn_body) = (0, 0, 0, 1)
   \<and> set_pose complete_extern (pose complete_extern half_turn_body) identity_body =
       half_turn_body"
proof -
  have A: "proper_rotation (R_of tilted_body)"
    by (simp add: proper_rotation_def identity3_def tilted_body_def R_of_def T_of_def)
  have B: "bottom_row (T_of tilted_body) = (0, 0, 0, 1)"
    by (simp add: tilted_body_def T_of_def)
  have C: "pose_scalar (GetTransformPose complete_extern (T_of tilted_body)) < 0"
    by (simp add: GetTransformPose_def pose_scalar_def complete_extern_def tilted_body_def
        T_of_def tilted_quaternion del: complete_quatFromMatrix.simps)
  have D: "pose complete_extern tilted_body = (1 / 3, - (2 / 3), - (2 / 3), 0, 1, 2, 3)"
    by (simp add: pose_def GetTransformPose_def complete_extern_def tilted_body_def
        tilted_quaternion del: complete_quatFromMatrix.simps)
  have F: "proper_rotation (R_of half_turn_body)"
    by (simp add: proper_rotation_def identity3_def half_turn_body_def R_of_def T_of_def)
  have G: "bottom_row (T_of half_turn_body) = (0, 0, 0, 1)"
    by (simp add: half_turn_body_def T_of_def)
  have H: "identity_body\<lparr>rave := T_of tilted_body\<rparr> = tilted_body"
    by (simp add: identity_body_def tilted_body_def T_of_def)
  have I: "identity_body\<lparr>rave := T_of half_turn_body\<rparr> = half_turn_body"
    by (simp add: identity_body_def half_turn_body_def T_of_def)
  show ?thesis
    using pose_set_pose_roundtrip [OF A B complete_extern_inverse complete_extern_sign,
        of identity_body]
      pose_set_pose_roundtrip [OF F G complete_extern_inverse complete_extern_sign,
        of identity_body]
      A B C D F G
    by (simp only: H I; simp)
qed

subsection \<open>Roll after pitch\<close>

lemma rpy_rpy_of_matrix: "rpy E self = rpy_of_matrix E (R_of self)"
proof -
  obtain r00 r01 r02 p0 r10 r11 r12 p1 r20 r21 r22 p2 bt
    where T: "rave self = ((r00, r01, r02, p0), (r10, r11, r12, p1), (r20, r21, r22, p2), bt)"
    by (rule mat4_cases)
  obtain w qx qy qz
    where Q: "quatFromMatrix E ((r00, r01, r02), (r10, r11, r12), (r20, r21, r22)) = (w, qx, qy, qz)"
    by (metis prod_cases4)
  show ?thesis
    by (simp add: rpy_def quat_def pose_def GetTransformPose_def rpy_of_matrix_def R_of_def
        T_of_def T Q pose_quat_def)
qed

lemma set_block33_frame: "block33 (set_block33 T R) = R \<and> col3 (set_block33 T R) = col3 T"
proof -
  obtain s00 s01 s02 s10 s11 s12 s20 s21 s22
    where R: "R = ((s00, s01, s02), (s10, s11, s12), (s20, s21, s22))"
    by (metis prod_cases3)
  show ?thesis
    by (cases T rule: mat4_cases) (simp add: R)
qed

lemma set_rpy_frame:
  "R_of (set_rpy E (r, p, y) self) = rotation_matrix_from_rpy E r p y
   \<and> p_of (set_rpy E (r, p, y) self) = p_of self"
  by (simp add: set_rpy_def Let_def body_defs set_block33_frame)

lemma rpy_set_rpy:
  "rpy_round_trip E r p y \<Longrightarrow> rpy E (set_rpy E (r, p, y) self) = (r, p, y)"
  by (simp add: rpy_rpy_of_matrix set_rpy_frame rpy_round_trip_def)

text \<open>
  Claim C7. \<^const>\<open>set_roll\<close> writes the new roll with the pitch and the yaw it reads
  from the body, and \<^const>\<open>set_pitch\<close> the new pitch with the roll and the yaw it reads.
  So, when the external conversions agree at the two triples of angles that are written,
  the roll set first is still read after the pitch has been set, the pitch is the one
  set, the yaw is the one of the body at the start, and the position has not moved.
\<close>

theorem set_pitch_keeps_roll:
  assumes "rpy_round_trip E r (pitch E self) (yaw E self)"
    and "rpy_round_trip E r p (yaw E self)"
  shows "roll E (set_pitch E p (set_roll E r self)) = r
         \<and> pitch E (set_pitch E p (set_roll E r self)) = p
         \<and> yaw E (set_pitch E p (set_roll E r self)) = yaw E self
         \<and> roll E (set_roll E r self) = r
         \<and> p_of (set_pitch E p (set_roll E r self)) = p_of self"
proof -
  let ?b1 = "set_roll E r self"
  have b1: "rpy E ?b1 = (r, pitch E self, yaw E self)"
    unfolding set_roll_def by (rule rpy_set_rpy [OF assms(1)])
  then have r1: "roll E ?b1 = r" and y1: "yaw E ?b1 = yaw E self"
    by (simp_all add: roll_def yaw_def)
  have b2: "rpy E (set_pitch E p ?b1) = (r, p, yaw E self)"
    unfolding set_pitch_def r1 y1 by (rule rpy_set_rpy [OF assms(2)])
  have p2: "p_of (set_pitch E p ?b1) = p_of self"
    by (simp add: set_pitch_def set_roll_def set_rpy_frame)
  from b2 r1 p2 show ?thesis
    by (simp add: roll_def pitch_def yaw_def)
qed

text \<open>The instance of the specification, with the example conversions: a body at the
  identity transform, the roll 0.1, then the pitch 0.2. The example conversions agree
  at every roll and pitch strictly between \<open>-\<pi>/2\<close> and \<open>\<pi>/2\<close>, with a yaw of zero.\<close>

lemma atan2_pos: "0 < x \<Longrightarrow> atan2 y x = arctan (y / x)"
  by (simp add: atan2_def)

lemma example_round_trip:
  assumes r: "- (pi / 2) < r" "r < pi / 2" and p: "- (pi / 2) < p" "p < pi / 2"
  shows "rpy_round_trip example_extern r p 0"
proof -
  define cr sr cp sp where "cr = cos r" and "sr = sin r" and "cp = cos p" and "sp = sin p"
  have cr: "0 < cr" and cp: "0 < cp"
    using r p by (simp_all add: cr_def cp_def cos_gt_zero_pi)
  have sr2: "sr * sr = (1 - cr) * (1 + cr)" and sp2: "sp * sp = (1 - cp) * (1 + cp)"
    using sin_cos_squared_add [of r] sin_cos_squared_add [of p]
    by (simp_all add: cr_def sr_def cp_def sp_def power2_eq_square algebra_simps)
  have R: "example_rotation_matrix_from_rpy r p 0 =
      ((cp, sp * sr, sp * cr), (0, cr, - sr), (- sp, cp * sr, cp * cr))"
    by (simp add: example_rotation_matrix_from_rpy_def cr_def sr_def cp_def sp_def)
  define W where "W = sqrt (1 + (cp + cr + cp * cr)) / 2"
  have D: "1 + (cp + cr + cp * cr) = (1 + cp) * (1 + cr)"
    by (simp add: algebra_simps)
  have Dpos: "0 < (1 + cp) * (1 + cr)"
    using cr cp by simp
  have W: "0 < W"
    using Dpos by (simp add: W_def D)
  have W2: "W * W = (1 + cp) * (1 + cr) / 4"
    using Dpos by (simp add: W_def D)
  define a where "a = 1 / (4 * W)"
  have Wa: "W * a = 1 / 4"
    using W by (simp add: a_def)
  have a2: "a * a * ((1 + cp) * (1 + cr)) = 1 / 4"
    using W W2 by (simp add: a_def field_simps)
  define qx qy qz where "qx = (cp * sr + sr) * a" and "qy = (sp * cr + sp) * a"
    and "qz = (0 - sp * sr) * a"
  have Q: "example_quatFromMatrix ((cp, sp * sr, sp * cr), (0, cr, - sr), (- sp, cp * sr, cp * cr)) =
      (- W, - qx, - qy, - qz)"
    by (simp add: W_def [symmetric] Let_def qx_def qy_def qz_def a_def)
  have F1: "sp * sp * (1 + cr) * (a * a) = (1 - cp) / 4"
  proof -
    have "sp * sp * (1 + cr) * (a * a) = (1 - cp) * (a * a * ((1 + cp) * (1 + cr)))"
      by (simp add: sp2 algebra_simps)
    also have "\<dots> = (1 - cp) * (1 / 4)"
      by (simp only: a2)
    finally show ?thesis by simp
  qed
  have F2: "sr * sr * (1 + cp) * (a * a) = (1 - cr) / 4"
  proof -
    have "sr * sr * (1 + cp) * (a * a) = (1 - cr) * (a * a * ((1 + cp) * (1 + cr)))"
      by (simp add: sr2 algebra_simps)
    also have "\<dots> = (1 - cr) * (1 / 4)"
      by (simp only: a2)
    finally show ?thesis by simp
  qed
  have I1: "2 * (W * qx + qy * qz) = sr * cp"
  proof -
    have "2 * (W * qx + qy * qz) =
        2 * (sr * (1 + cp) * (W * a)) - 2 * sr * (sp * sp * (1 + cr) * (a * a))"
      by (simp add: qx_def qy_def qz_def algebra_simps)
    also have "\<dots> = 2 * (sr * (1 + cp) * (1 / 4)) - 2 * sr * ((1 - cp) / 4)"
      by (simp only: Wa F1)
    also have "\<dots> = sr * cp"
      by (simp add: field_simps)
    finally show ?thesis .
  qed
  have I2: "1 - 2 * (qx * qx + qy * qy) = cr * cp"
  proof -
    have "1 - 2 * (qx * qx + qy * qy) =
        1 - 2 * ((1 + cp) * (sr * sr * (1 + cp) * (a * a)))
          - 2 * ((1 + cr) * (sp * sp * (1 + cr) * (a * a)))"
      by (simp add: qx_def qy_def algebra_simps)
    also have "\<dots> = 1 - 2 * ((1 + cp) * ((1 - cr) / 4)) - 2 * ((1 + cr) * ((1 - cp) / 4))"
      by (simp only: F1 F2)
    also have "\<dots> = cr * cp"
      by (simp add: field_simps)
    finally show ?thesis .
  qed
  have I3: "2 * (W * qy - qz * qx) = sp"
  proof -
    have "2 * (W * qy - qz * qx) =
        2 * (sp * (1 + cr) * (W * a)) + 2 * sp * (sr * sr * (1 + cp) * (a * a))"
      by (simp add: qx_def qy_def qz_def algebra_simps)
    also have "\<dots> = 2 * (sp * (1 + cr) * (1 / 4)) + 2 * sp * ((1 - cr) / 4)"
      by (simp only: Wa F2)
    also have "\<dots> = sp"
      by (simp add: field_simps)
    finally show ?thesis .
  qed
  have I4: "2 * (W * qz + qx * qy) = 0"
  proof -
    have "2 * (W * qz + qx * qy) =
        2 * sp * sr * ((a * a * ((1 + cp) * (1 + cr))) - W * a)"
      by (simp add: qx_def qy_def qz_def algebra_simps)
    also have "\<dots> = 2 * sp * sr * (1 / 4 - 1 / 4)"
      by (simp only: Wa a2)
    finally show ?thesis by simp
  qed
  have I5: "1 - 2 * (qy * qy + qz * qz) = cp"
  proof -
    have "1 - 2 * (qy * qy + qz * qz) =
        1 - 2 * ((1 + cr) * (sp * sp * (1 + cr) * (a * a)))
          - 2 * (sp * sp * (sr * sr) * (a * a))"
      by (simp add: qy_def qz_def algebra_simps)
    also have "sp * sp * (sr * sr) * (a * a) = (1 - cr) * (sp * sp * (1 + cr) * (a * a))"
      by (simp add: sr2 algebra_simps)
    also have "1 - 2 * ((1 + cr) * (sp * sp * (1 + cr) * (a * a)))
          - 2 * ((1 - cr) * (sp * sp * (1 + cr) * (a * a))) =
        1 - 2 * ((1 + cr) * ((1 - cp) / 4)) - 2 * ((1 - cr) * ((1 - cp) / 4))"
      by (simp only: F1)
    also have "\<dots> = cp"
      by (simp add: field_simps)
    finally show ?thesis .
  qed
  have roll: "arctan (sr * cp / (cr * cp)) = r"
  proof -
    have "sr * cp / (cr * cp) = tan r"
      using cp by (simp add: tan_def sr_def cr_def)
    then show ?thesis using r by (simp add: arctan_tan)
  qed
  have pitch: "arcsin sp = p"
    using p by (simp add: sp_def arcsin_sin)
  have CC: "0 < cr * cp" using cr cp by simp
  have yaw: "atan2 0 cp = 0"
    using cp by (simp add: atan2_pos)
  have canonical: "rpy_of_matrix example_extern (example_rotation_matrix_from_rpy r p 0) =
      example_rpy_from_quat (W, qx, qy, qz)"
    using W by (simp add: rpy_of_matrix_def example_extern_def R Q
        del: example_quatFromMatrix.simps example_rpy_from_quat.simps)
  have "example_rpy_from_quat (W, qx, qy, qz) = (atan2 (sr * cp) (cr * cp), arcsin sp, atan2 0 cp)"
    unfolding example_rpy_from_quat.simps I1 I2 I3 I4 I5 ..
  also have "\<dots> = (r, p, 0)"
    by (simp only: atan2_pos [OF CC] roll pitch yaw)
  finally have angles: "example_rpy_from_quat (W, qx, qy, qz) = (r, p, 0)" .
  have sel: "rotation_matrix_from_rpy example_extern = example_rotation_matrix_from_rpy"
    by (simp add: example_extern_def)
  show ?thesis
    unfolding rpy_round_trip_def sel by (rule trans [OF canonical angles])
qed


lemma quat_identity: "quat example_extern identity_body = (1, 0, 0, 0)"
  by (simp add: quat_def identity_pose pose_quat_def)

lemma rpy_identity: "rpy example_extern identity_body = (0, 0, 0)"
  by (simp add: rpy_def quat_identity) (simp add: example_extern_def atan2_def)

theorem roll_after_set_roll_set_pitch:
  "rpy_round_trip example_extern 0.1 (pitch example_extern identity_body)
     (yaw example_extern identity_body)
   \<and> rpy_round_trip example_extern 0.1 0.2 (yaw example_extern identity_body)
   \<and> roll example_extern
       (set_pitch example_extern 0.2 (set_roll example_extern 0.1 identity_body)) = 0.1
   \<and> pitch example_extern
       (set_pitch example_extern 0.2 (set_roll example_extern 0.1 identity_body)) = 0.2"
proof -
  have py: "pitch example_extern identity_body = 0" "yaw example_extern identity_body = 0"
    by (simp_all add: pitch_def yaw_def rpy_identity)
  have half_pi: "1 \<le> pi / 2"
    using pi_ge_two by simp
  have A: "rpy_round_trip example_extern 0.1 (pitch example_extern identity_body)
      (yaw example_extern identity_body)"
    unfolding py using half_pi by (intro example_round_trip) simp_all
  have B: "rpy_round_trip example_extern 0.1 0.2 (yaw example_extern identity_body)"
    unfolding py using half_pi by (intro example_round_trip) simp_all
  show ?thesis
    using set_pitch_keeps_roll [OF A B] A B by simp
qed

end
